theory Spec2Isabelle
  imports Main
begin

section \<open>Python values\<close>

text \<open>
  A Python \<open>str\<close> is a sequence of Unicode code points, so it is modelled as a list of
  natural numbers. ASCII literals of the source are written \<open>u ''...''\<close>.
\<close>

type_synonym ustring = "nat list"

definition u :: "string \<Rightarrow> ustring" where
  "u s = map of_char s"

text \<open>
  The values that travel through the program are decoded JSON: \<open>None\<close>, strings,
  integers, lists and dictionaries. A dictionary keeps its insertion order, so it is an
  association list; a lookup reads the first entry of a key.
\<close>

datatype pyval =
    PNone
  | PStr ustring
  | PInt int
  | PList "pyval list"
  | PDict "(ustring \<times> pyval) list"

type_synonym pydict = "(ustring \<times> pyval) list"

text \<open>
  An exception is a value. A \<open>ValueError\<close> carries its message; where the source
  builds the message with an f-string around a value that need not be a string, the
  message is the text around the placeholder and the interpolated values follow it.
\<close>

datatype pyerr =
    TypeError
  | AttributeError
  | KeyError pyval
  | ValueError ustring "pyval list"
  | IntegrityError
  | DBAPIError
  | OverflowError
  | ArrowInvalid
  | DatabaseError
  | FileNotFoundError

fun py_truthy :: "pyval \<Rightarrow> bool" where
  "py_truthy PNone = False"
| "py_truthy (PStr s) = (s \<noteq> [])"
| "py_truthy (PInt n) = (n \<noteq> 0)"
| "py_truthy (PList xs) = (xs \<noteq> [])"
| "py_truthy (PDict d) = (d \<noteq> [])"

section \<open>infra/address\_parser.py\<close>

text \<open>
  \<open>\s\<close> of a \<open>str\<close> pattern and \<open>str.strip()\<close> both use the interpreter's
  whitespace test on code points.
\<close>

definition py_isspace :: "nat \<Rightarrow> bool" where
  "py_isspace c \<longleftrightarrow>
     (9 \<le> c \<and> c \<le> 13) \<or> (28 \<le> c \<and> c \<le> 32) \<or> c = 133 \<or> c = 160 \<or> c = 5760 \<or>
     (8192 \<le> c \<and> c \<le> 8202) \<or> c = 8232 \<or> c = 8233 \<or> c = 8239 \<or> c = 8287 \<or> c = 12288"

definition is_cr_lf :: "nat \<Rightarrow> bool" where
  "is_cr_lf c \<longleftrightarrow> c = 10 \<or> c = 13"

text \<open>
  \<open>str.isalpha()\<close>: on ASCII the letters are \<open>A-Z\<close> and \<open>a-z\<close>; beyond ASCII the
  answer comes from the interpreter's Unicode database, which is a parameter \<open>ua\<close> of
  the model.
\<close>

definition alpha_char :: "(nat \<Rightarrow> bool) \<Rightarrow> nat \<Rightarrow> bool" where
  "alpha_char ua c \<longleftrightarrow>
     (if c < 128 then (65 \<le> c \<and> c \<le> 90) \<or> (97 \<le> c \<and> c \<le> 122) else ua c)"

definition py_isalpha :: "(nat \<Rightarrow> bool) \<Rightarrow> ustring \<Rightarrow> bool" where
  "py_isalpha ua s \<longleftrightarrow> s \<noteq> [] \<and> list_all (alpha_char ua) s"

text \<open>\<open>re.sub(r"[...]+", r, s)\<close>: every maximal run of matching characters becomes \<open>r\<close>.\<close>

primrec sub_run :: "(nat \<Rightarrow> bool) \<Rightarrow> nat \<Rightarrow> bool \<Rightarrow> ustring \<Rightarrow> ustring" where
  "sub_run P r in_run [] = []"
| "sub_run P r in_run (c # cs) =
     (if P c then (if in_run then sub_run P r True cs else r # sub_run P r True cs)
      else c # sub_run P r False cs)"

definition re_sub_runs :: "(nat \<Rightarrow> bool) \<Rightarrow> nat \<Rightarrow> ustring \<Rightarrow> ustring" where
  "re_sub_runs P r s = sub_run P r False s"

definition strip :: "ustring \<Rightarrow> ustring" where
  "strip s = rev (dropWhile py_isspace (rev (dropWhile py_isspace s)))"

text \<open>\<open>s.split(sep)\<close> for a one-character separator: never an empty list.\<close>

fun split_on :: "nat \<Rightarrow> ustring \<Rightarrow> ustring list" where
  "split_on sep [] = [[]]"
| "split_on sep (c # cs) =
     (if c = sep then [] # split_on sep cs
      else (case split_on sep cs of
              [] \<Rightarrow> [[c]]
            | w # ws \<Rightarrow> (c # w) # ws))"

fun join_sp :: "ustring list \<Rightarrow> ustring" where
  "join_sp [] = []"
| "join_sp [w] = w"
| "join_sp (w # ws) = w @ 32 # join_sp ws"

text \<open>The loop over the middle parts, with its \<open>break\<close>.\<close>

fun collect_parts ::
  "(nat \<Rightarrow> bool) \<Rightarrow> ustring list \<Rightarrow> ustring list \<Rightarrow> ustring list \<Rightarrow> ustring list \<times> ustring list"
where
  "collect_parts ua [] zip_parts city_parts = (zip_parts, city_parts)"
| "collect_parts ua (part # rest) zip_parts city_parts =
     (if py_isalpha ua part then (zip_parts, (part # rest) @ city_parts)
      else collect_parts ua rest (zip_parts @ [part]) city_parts)"

definition normalize_address :: "ustring \<Rightarrow> ustring" where
  "normalize_address address =
     strip (re_sub_runs py_isspace 32 (re_sub_runs is_cr_lf 44 address))"

type_synonym address_parts = "ustring option \<times> ustring option \<times> ustring option"

definition parse_address :: "(nat \<Rightarrow> bool) \<Rightarrow> pyval \<Rightarrow> pyerr + address_parts" where
  "parse_address ua address =
     (if \<not> py_truthy address then Inr (None, None, None)
      else case address of
        PStr a \<Rightarrow>
          (let s = normalize_address a in
           if s = [] then Inr (None, None, None)
           else
             let street_zip_city_list = split_on 44 s in
             if length street_zip_city_list = 2 then
               let street = street_zip_city_list ! 0;
                   zip_city = street_zip_city_list ! 1;
                   parts = split_on 32 (strip zip_city)
               in
                 if length parts < 2 then Inr (None, None, None)
                 else
                   let zip_parts = [hd parts];
                       parts = tl parts;
                       city_parts = [last parts];
                       parts = butlast parts;
                       (zip_parts, city_parts) = collect_parts ua parts zip_parts city_parts
                   in Inr (Some (join_sp city_parts), Some street, Some (join_sp zip_parts))
             else Inr (None, None, None))
      | _ \<Rightarrow> Inl TypeError)"

section \<open>Dictionaries and decimal numerals\<close>

text \<open>\<open>d.get(k)\<close>, \<open>d[k]\<close>, \<open>d[k] = v\<close>, \<open>d.update(e)\<close> and \<open>d.pop(k)\<close>.\<close>

definition dict_get :: "pydict \<Rightarrow> ustring \<Rightarrow> pyval" where
  "dict_get d k = (case map_of d k of None \<Rightarrow> PNone | Some v \<Rightarrow> v)"

definition dict_getitem :: "pydict \<Rightarrow> ustring \<Rightarrow> pyerr + pyval" where
  "dict_getitem d k = (case map_of d k of None \<Rightarrow> Inl (KeyError (PStr k)) | Some v \<Rightarrow> Inr v)"

fun dict_set :: "pydict \<Rightarrow> ustring \<Rightarrow> pyval \<Rightarrow> pydict" where
  "dict_set [] k v = [(k, v)]"
| "dict_set ((k', v') # d) k v = (if k' = k then (k, v) # d else (k', v') # dict_set d k v)"

definition dict_update :: "pydict \<Rightarrow> pydict \<Rightarrow> pydict" where
  "dict_update d e = fold (\<lambda>(k, v) acc. dict_set acc k v) e d"

definition dict_pop :: "pydict \<Rightarrow> ustring \<Rightarrow> pyerr + (pyval \<times> pydict)" where
  "dict_pop d k =
     (case map_of d k of
        None \<Rightarrow> Inl (KeyError (PStr k))
      | Some v \<Rightarrow> Inr (v, filter (\<lambda>(k', _). k' \<noteq> k) d))"

text \<open>\<open>x.get(k)\<close> on a decoded JSON value: only a dictionary has the method.\<close>

definition py_get :: "pyval \<Rightarrow> ustring \<Rightarrow> pyerr + pyval" where
  "py_get x k = (case x of PDict d \<Rightarrow> Inr (dict_get d k) | _ \<Rightarrow> Inl AttributeError)"

fun hashable :: "pyval \<Rightarrow> bool" where
  "hashable (PList _) = False"
| "hashable (PDict _) = False"
| "hashable _ = True"

fun str_of_nat :: "nat \<Rightarrow> ustring" where
  "str_of_nat n = (if n < 10 then [48 + n] else str_of_nat (n div 10) @ [48 + n mod 10])"

declare str_of_nat.simps [simp del]

definition str_of_int :: "int \<Rightarrow> ustring" where
  "str_of_int i = (if i < 0 then 45 # str_of_nat (nat (- i)) else str_of_nat (nat i))"

definition two_digits :: "nat \<Rightarrow> ustring" where
  "two_digits n = [48 + n div 10 mod 10, 48 + n mod 10]"

text \<open>\<open>s.replace(old, new)\<close>: all occurrences, left to right, without overlap.\<close>

function py_replace :: "ustring \<Rightarrow> ustring \<Rightarrow> ustring \<Rightarrow> ustring" where
  "py_replace old new [] = (if old = [] then new else [])"
| "py_replace old new (c # cs) =
     (if old = [] then new @ c # py_replace old new cs
      else if take (length old) (c # cs) = old
        then new @ py_replace old new (drop (length old) (c # cs))
      else c # py_replace old new cs)"
  by pat_completeness auto
termination
  by (relation "measure (\<lambda>(old, new, s). length s)") auto

text \<open>\<open>sub in s\<close> on strings.\<close>

fun py_in :: "ustring \<Rightarrow> ustring \<Rightarrow> bool" where
  "py_in sub [] = (sub = [])"
| "py_in sub (c # cs) = (take (length sub) (c # cs) = sub \<or> py_in sub cs)"

section \<open>settings.py\<close>

definition hubspot_api_companies_path :: ustring where
  "hubspot_api_companies_path = u ''/crm/objects/v3/companies''"

definition hubspot_api_contacts_path :: ustring where
  "hubspot_api_contacts_path = u ''/crm/objects/v3/contacts''"

definition hubspot_api_deals_path :: ustring where
  "hubspot_api_deals_path = u ''/crm/objects/v3/deals''"

definition contacts_filename :: ustring where
  "contacts_filename = u ''contacts.parquet''"

definition deals_filename :: ustring where
  "deals_filename = u ''deals.parquet''"

definition companies_filename :: ustring where
  "companies_filename = u ''companies.sqlite''"

definition csv_accounts_contacts_filename :: ustring where
  "csv_accounts_contacts_filename = u ''accounts_contacts.csv''"

definition csv_errors_accounts_contacts_filename :: ustring where
  "csv_errors_accounts_contacts_filename = u ''errors_accounts_contacts.csv''"

definition csv_opportunities_filename :: ustring where
  "csv_opportunities_filename = u ''opportunities.csv''"

definition csv_errors_opportunities_filename :: ustring where
  "csv_errors_opportunities_filename = u ''errors_opportunities.csv''"

section \<open>models/field\_map.py and field\_mapping.py\<close>

text \<open>
  What a transform reads besides its arguments: the Unicode letter table behind
  \<open>str.isalpha()\<close> and the clock behind \<open>datetime.now()\<close>.
\<close>

record datetime =
  year :: nat
  month :: nat
  day :: nat
  hour :: nat
  minute :: nat
  second :: nat
  microsecond :: nat

record env =
  uni_alpha :: "nat \<Rightarrow> bool"
  now :: datetime

text \<open>A transform returns a plain value, or a tuple of a value and a context update.\<close>

datatype transform_result = Plain pyval | WithContext pyval pydict

type_synonym transform = "env \<Rightarrow> pyval \<Rightarrow> pydict \<Rightarrow> pyerr + transform_result"

record FieldMap =
  src_field :: ustring
  transform_fun :: "transform option"
  required :: bool

type_synonym fields_map = "(ustring \<times> FieldMap) list"

definition ACCOUNTS_NAME_COLUMN :: ustring where
  "ACCOUNTS_NAME_COLUMN = u ''Account Name''"

definition COMPANY_ID_COLUMN :: ustring where
  "COMPANY_ID_COLUMN = u ''company_id''"

definition DEALTYPE_MAP :: "(ustring \<times> ustring) list" where
  "DEALTYPE_MAP =
     [(u ''newbusiness'', u ''New Business''),
      (u ''existingbusiness'', u ''Existing Business'')]"

definition DEALSTAGE_MAP :: "(ustring \<times> ustring) list" where
  "DEALSTAGE_MAP =
     [(u ''qualifiedtobuy'', u ''Qualify''),
      (u ''presentationscheduled'', u ''Meet & Present''),
      (u ''appointmentscheduled'', u ''Propose''),
      (u ''decisionmakerboughtin'', u ''Negotiate''),
      (u ''closedwon'', u ''Closed Won''),
      (u ''closedlost'', u ''Closed Lost'')]"

definition opt_str :: "ustring option \<Rightarrow> pyval" where
  "opt_str x = (case x of None \<Rightarrow> PNone | Some s \<Rightarrow> PStr s)"

definition split_street_from_city_zip_code :: transform where
  "split_street_from_city_zip_code e address ctx =
     (case parse_address (uni_alpha e) address of
        Inl err \<Rightarrow> Inl err
      | Inr (city, street, zip_code) \<Rightarrow>
          Inr (WithContext (opt_str street)
                 [(u ''city'', opt_str city), (u ''zip_code'', opt_str zip_code)]))"

text \<open>\<open>lambda domain, _: "https://" + domain\<close>\<close>

definition account_website :: transform where
  "account_website e domain ctx =
     (case domain of
        PStr d \<Rightarrow> Inr (Plain (PStr (u ''https://'' @ d)))
      | _ \<Rightarrow> Inl TypeError)"

text \<open>\<open>lambda _, ctx: ctx["city"]\<close> and \<open>lambda _, ctx: ctx["zip_code"]\<close>\<close>

definition ctx_item :: "ustring \<Rightarrow> transform" where
  "ctx_item k e v ctx =
     (case dict_getitem ctx k of Inl err \<Rightarrow> Inl err | Inr x \<Rightarrow> Inr (Plain x))"

definition get_company_id_from_assoc :: transform where
  "get_company_id_from_assoc e associations_companies_results ctx =
     (if \<not> py_truthy associations_companies_results then Inr (Plain PNone)
      else case associations_companies_results of
        PList (first # _) \<Rightarrow>
          (case py_get first (u ''id'') of
             Inl err \<Rightarrow> Inl err
           | Inr company_id \<Rightarrow> Inr (Plain company_id))
      | PStr _ \<Rightarrow> Inl AttributeError
      | PDict _ \<Rightarrow> Inl (KeyError (PInt 0))
      | _ \<Rightarrow> Inl TypeError)"

text \<open>\<open>lambda val, _: DEALTYPE_MAP.get(val)\<close> and the same for the stages.\<close>

definition map_lookup :: "(ustring \<times> ustring) list \<Rightarrow> transform" where
  "map_lookup m e val ctx =
     (if \<not> hashable val then Inl TypeError
      else case val of
        PStr s \<Rightarrow> Inr (Plain (opt_str (map_of m s)))
      | _ \<Rightarrow> Inr (Plain PNone))"

text \<open>
  \<open>strftime("%Y-%m-%d %H:%M:%S")\<close> of a reading of the clock; the year is printed as
  it is (four digits from the year 1000 on).
\<close>

definition strftime :: "datetime \<Rightarrow> ustring" where
  "strftime t =
     str_of_nat (year t) @ u ''-'' @ two_digits (month t) @ u ''-'' @ two_digits (day t) @
     u '' '' @ two_digits (hour t) @ u '':'' @ two_digits (minute t) @ u '':'' @
     two_digits (second t)"

definition get_closedate :: transform where
  "get_closedate e closedate ctx =
     (if py_truthy closedate then
        (case closedate of
           PStr s \<Rightarrow>
             Inr (Plain (PStr (py_replace (u ''Z'') [] (py_replace (u ''T'') (u '' '') s))))
         | _ \<Rightarrow> Inl AttributeError)
      else
        Inr (Plain (PStr (strftime
          ((now e)\<lparr>hour := 0, minute := 0, second := 0, microsecond := 0\<rparr>)))))"

definition ACCOUNT_FIELDS_MAP :: fields_map where
  "ACCOUNT_FIELDS_MAP =
     [(ACCOUNTS_NAME_COLUMN,
         \<lparr>src_field = u ''name'', transform_fun = None, required = True\<rparr>),
      (u ''Account Website'',
         \<lparr>src_field = u ''domain'', transform_fun = Some account_website, required = False\<rparr>),
      (u ''Account Billing Street'',
         \<lparr>src_field = u ''address'', transform_fun = Some split_street_from_city_zip_code,
          required = False\<rparr>),
      (u ''Account Billing City'',
         \<lparr>src_field = u ''address'', transform_fun = Some (ctx_item (u ''city'')),
          required = False\<rparr>),
      (u ''Account Billing Zip/Postal Code'',
         \<lparr>src_field = u ''address'', transform_fun = Some (ctx_item (u ''zip_code'')),
          required = False\<rparr>),
      (u ''Account Billing Country'',
         \<lparr>src_field = u ''country'', transform_fun = None, required = False\<rparr>)]"

definition CONTACT_FIELDS_MAP :: fields_map where
  "CONTACT_FIELDS_MAP =
     [(COMPANY_ID_COLUMN,
         \<lparr>src_field = u ''associations_companies_results'',
          transform_fun = Some get_company_id_from_assoc, required = True\<rparr>),
      (u ''Contact First Name'',
         \<lparr>src_field = u ''firstname'', transform_fun = None, required = True\<rparr>),
      (u ''Contact Last Name'',
         \<lparr>src_field = u ''lastname'', transform_fun = None, required = True\<rparr>),
      (u ''Contact Phone'',
         \<lparr>src_field = u ''phone'', transform_fun = None, required = False\<rparr>),
      (u ''Contact Email'',
         \<lparr>src_field = u ''email'', transform_fun = None, required = False\<rparr>),
      (u ''Contact Title'',
         \<lparr>src_field = u ''jobtitle'', transform_fun = None, required = False\<rparr>),
      (u ''Contact Mailing Street'',
         \<lparr>src_field = u ''address'', transform_fun = Some split_street_from_city_zip_code,
          required = False\<rparr>),
      (u ''Contact Mailing City'',
         \<lparr>src_field = u ''address'', transform_fun = Some (ctx_item (u ''city'')),
          required = False\<rparr>),
      (u ''Contact Mailing Zip/Postal Code'',
         \<lparr>src_field = u ''address'', transform_fun = Some (ctx_item (u ''zip_code'')),
          required = False\<rparr>),
      (u ''Contact Mailing Country'',
         \<lparr>src_field = u ''country'', transform_fun = None, required = False\<rparr>)]"

definition DEAL_FIELDS_MAP :: fields_map where
  "DEAL_FIELDS_MAP =
     [(COMPANY_ID_COLUMN,
         \<lparr>src_field = u ''associations_companies_results'',
          transform_fun = Some get_company_id_from_assoc, required = True\<rparr>),
      (u ''Name'',
         \<lparr>src_field = u ''dealname'', transform_fun = None, required = True\<rparr>),
      (u ''Type'',
         \<lparr>src_field = u ''dealtype'', transform_fun = Some (map_lookup DEALTYPE_MAP),
          required = False\<rparr>),
      (u ''Stage'',
         \<lparr>src_field = u ''dealstage'', transform_fun = Some (map_lookup DEALSTAGE_MAP),
          required = True\<rparr>),
      (u ''Amount'',
         \<lparr>src_field = u ''amount'', transform_fun = None, required = False\<rparr>),
      (u ''Close Date'',
         \<lparr>src_field = u ''closedate'', transform_fun = Some get_closedate, required = True\<rparr>)]"

text \<open>
  The loop of \<open>build_attrs\<close>, with \<open>attrs\<close> and \<open>ctx\<close> as they stand before the
  remaining mappings run.
\<close>

fun build_attrs_loop ::
  "env \<Rightarrow> fields_map \<Rightarrow> pyval \<Rightarrow> pydict \<Rightarrow> pydict \<Rightarrow> pyerr + pydict"
where
  "build_attrs_loop e [] hs_record attrs ctx = Inr attrs"
| "build_attrs_loop e ((sf_label, field) # rest) hs_record attrs ctx =
     (case py_get hs_record (src_field field) of
        Inl err \<Rightarrow> Inl err
      | Inr src \<Rightarrow>
          (case transform_fun field of
             Some f \<Rightarrow>
               (case f e src ctx of
                  Inl err \<Rightarrow> Inl err
                | Inr (WithContext v new_ctx) \<Rightarrow>
                    build_attrs_loop e rest hs_record (dict_set attrs sf_label v)
                      (dict_update ctx new_ctx)
                | Inr (Plain v) \<Rightarrow>
                    build_attrs_loop e rest hs_record (dict_set attrs sf_label v) ctx)
           | None \<Rightarrow> build_attrs_loop e rest hs_record (dict_set attrs sf_label src) ctx))"

definition build_attrs :: "env \<Rightarrow> fields_map \<Rightarrow> pyval \<Rightarrow> pyerr + pydict" where
  "build_attrs e fm hs_record = build_attrs_loop e fm hs_record [] []"

fun first_missing_field :: "fields_map \<Rightarrow> pydict \<Rightarrow> (ustring \<times> ustring) option" where
  "first_missing_field [] attrs = None"
| "first_missing_field ((sf_label, field) # rest) attrs =
     (if required field \<and> \<not> py_truthy (dict_get attrs sf_label)
      then Some (src_field field, sf_label)
      else first_missing_field rest attrs)"

section \<open>infra/companies\_db.py\<close>

text \<open>
  The table \<open>companies\<close>: one row per company, in insertion order. The columns \<open>id\<close>
  and \<open>name\<close> hold text; \<open>id\<close> is the primary key and is never \<open>NULL\<close>, \<open>name\<close>
  may be \<open>NULL\<close>.
\<close>

record company_row =
  col_id :: ustring
  col_attrs :: pydict
  col_name :: "ustring option"
  col_duplicate :: bool

type_synonym companies = "company_row list"

text \<open>
  A Python value bound as a parameter that is stored in or compared with a text column:
  \<open>None\<close> is \<open>NULL\<close>, an integer of 64 bits is converted to its decimal text, a list or
  a dictionary is refused by the driver. The refusal reaches the caller as a \<open>DBAPIError\<close>
  of SQLAlchemy, whose subclass depends on the interpreter: \<open>InterfaceError\<close> before
  Python 3.11, \<open>ProgrammingError\<close> from then on.

  A string is bound as it stands. The driver encodes it as UTF-8, and a string with a
  surrogate code point has no encoding: there the driver raises \<open>UnicodeEncodeError\<close>,
  which this function does not have. What is proved of a query by name is therefore
  stated for names that \<open>utf8_encodable\<close> accepts.
\<close>

definition sql_text :: "pyval \<Rightarrow> pyerr + ustring option" where
  "sql_text v =
     (case v of
        PNone \<Rightarrow> Inr None
      | PStr s \<Rightarrow> Inr (Some s)
      | PInt n \<Rightarrow>
          (if - (2 ^ 63) \<le> n \<and> n < 2 ^ 63 then Inr (Some (str_of_int n)) else Inl OverflowError)
      | _ \<Rightarrow> Inl DBAPIError)"

fun sql_texts :: "pyval list \<Rightarrow> pyerr + ustring option list" where
  "sql_texts [] = Inr []"
| "sql_texts (v # vs) =
     (case sql_text v of
        Inl err \<Rightarrow> Inl err
      | Inr t \<Rightarrow> (case sql_texts vs of Inl err \<Rightarrow> Inl err | Inr ts \<Rightarrow> Inr (t # ts)))"

type_synonym company_entry = "pyval \<times> pydict \<times> pyval \<times> bool"

text \<open>
  The \<open>INSERT\<close> of \<open>add_companies\<close>, in one transaction: a \<open>NULL\<close> id or an id that
  is already in the table fails the whole batch. Of two failures in one batch the model
  reports the one of the earlier row.
\<close>

fun insert_rows :: "companies \<Rightarrow> company_entry list \<Rightarrow> pyerr + companies" where
  "insert_rows tbl [] = Inr tbl"
| "insert_rows tbl ((comp_id, attrs, name, duplicate) # rest) =
     (case sql_text comp_id of
        Inl err \<Rightarrow> Inl err
      | Inr i \<Rightarrow>
          (case sql_text name of
             Inl err \<Rightarrow> Inl err
           | Inr n \<Rightarrow>
               (case i of
                  None \<Rightarrow> Inl IntegrityError
                | Some i' \<Rightarrow>
                    if i' \<in> set (map col_id tbl) then Inl IntegrityError
                    else insert_rows
                      (tbl @ [\<lparr>col_id = i', col_attrs = attrs, col_name = n,
                               col_duplicate = duplicate\<rparr>]) rest)))"

definition add_companies :: "companies \<Rightarrow> company_entry list \<Rightarrow> pyerr + companies" where
  "add_companies db_engine id_attrs_list =
     (if id_attrs_list = [] then Inl (ValueError (u ''No companies provided'') [])
      else case find (\<lambda>(comp_id, attrs, name, duplicate). attrs = []) id_attrs_list of
        Some (comp_id, attrs, name, duplicate) \<Rightarrow>
          Inl (ValueError (u ''No attrs provided for company with id {comp_id}'') [comp_id])
      | None \<Rightarrow> insert_rows db_engine id_attrs_list)"

text \<open>\<open>get_company\<close> returns the pair of \<open>attrs\<close> and \<open>duplicate\<close>.\<close>

definition get_company :: "companies \<Rightarrow> pyval \<Rightarrow> pyerr + (pydict \<times> bool)" where
  "get_company db_engine id' =
     (if \<not> py_truthy id' then Inl (ValueError (u ''No id provided'') [])
      else case sql_text id' of
        Inl err \<Rightarrow> Inl err
      | Inr t \<Rightarrow>
          (case find (\<lambda>r. Some (col_id r) = t) db_engine of
             Some r \<Rightarrow> Inr (col_attrs r, col_duplicate r)
           | None \<Rightarrow> Inl (ValueError (u ''Company not found'') [])))"

text \<open>The loop that refuses a name list with a repeated name.\<close>

fun check_names :: "pyval list \<Rightarrow> pyval list \<Rightarrow> pyerr + unit" where
  "check_names [] seen = Inr ()"
| "check_names (name # rest) seen =
     (if \<not> hashable name then Inl TypeError
      else if name \<in> set seen
        then Inl (ValueError (u ''Duplicate names in list: '' @ [34] @ u ''{name}'' @ [34]) [name])
      else check_names rest (name # seen))"

text \<open>
  The rows the \<open>SELECT\<close> returns, as pairs of name and id: the rows whose name is one of
  the bound names and whose \<open>duplicate\<close> is false. A \<open>NULL\<close> name matches nothing.
\<close>

definition select_by_name :: "companies \<Rightarrow> ustring option list \<Rightarrow> (ustring \<times> ustring) list" where
  "select_by_name tbl ts =
     List.map_filter
       (\<lambda>r. case col_name r of
               None \<Rightarrow> None
             | Some n \<Rightarrow> if Some n \<in> set ts \<and> \<not> col_duplicate r then Some (n, col_id r) else None)
       tbl"

definition find_companies_by_name :: "companies \<Rightarrow> pyval list option \<Rightarrow> pyerr + pyval list" where
  "find_companies_by_name db_engine name_list =
     (case name_list of
        None \<Rightarrow> Inl (ValueError (u ''No names list provided'') [])
      | Some [] \<Rightarrow> Inl (ValueError (u ''No names list provided'') [])
      | Some names \<Rightarrow>
          (case check_names names [] of
             Inl err \<Rightarrow> Inl err
           | Inr _ \<Rightarrow>
               (case sql_texts names of
                  Inl err \<Rightarrow> Inl err
                | Inr ts \<Rightarrow>
                    let found_companies = select_by_name db_engine ts;
                        name_to_id = fold (\<lambda>(name, i) m. m(name \<mapsto> i)) found_companies Map.empty
                    in Inr (map (\<lambda>n. case n of
                                        PStr s \<Rightarrow> opt_str (name_to_id s)
                                      | _ \<Rightarrow> PNone) names))))"

section \<open>translator.py: persisting companies\<close>

definition OPPORTUNITIES_ACCOUNT_NAME_COLUMN :: ustring where
  "OPPORTUNITIES_ACCOUNT_NAME_COLUMN = u ''Next Step''"

definition ERROR_COLUMN :: ustring where
  "ERROR_COLUMN = u ''Error''"

definition DUPLICATE_COMPANY :: ustring where
  "DUPLICATE_COMPANY = u ''Duplicate company name (Account Name)''"

definition MISSING_VALUE :: ustring where
  "MISSING_VALUE = u ''Missing value $url_path$ $hs_name$ ($sf_label$)''"

text \<open>\<open>json.get("results") or []\<close>, as the list the loops iterate over.\<close>

definition results_of :: "pyval \<Rightarrow> pyerr + pyval list" where
  "results_of json =
     (case py_get json (u ''results'') of
        Inl err \<Rightarrow> Inl err
      | Inr r \<Rightarrow>
          if \<not> py_truthy r then Inr []
          else (case r of
                  PList xs \<Rightarrow> Inr xs
                | PInt _ \<Rightarrow> Inl TypeError
                | _ \<Rightarrow> Inl AttributeError))"

text \<open>The first loop of \<open>_persist_company\<close>: id, attributes and name of every result.\<close>

fun company_entries :: "env \<Rightarrow> pyval list \<Rightarrow> pyerr + (pyval \<times> pydict \<times> pyval) list" where
  "company_entries e [] = Inr []"
| "company_entries e (res # rest) =
     (case py_get res (u ''id'') of
        Inl err \<Rightarrow> Inl err
      | Inr company_id \<Rightarrow>
          (case py_get res (u ''properties'') of
             Inl err \<Rightarrow> Inl err
           | Inr properties \<Rightarrow>
               (case build_attrs e ACCOUNT_FIELDS_MAP properties of
                  Inl err \<Rightarrow> Inl err
                | Inr attrs \<Rightarrow>
                    (case dict_getitem attrs ACCOUNTS_NAME_COLUMN of
                       Inl err \<Rightarrow> Inl err
                     | Inr name \<Rightarrow>
                         (case company_entries e rest of
                            Inl err \<Rightarrow> Inl err
                          | Inr entries \<Rightarrow> Inr ((company_id, attrs, name) # entries))))))"

text \<open>
  \<open>list(set(names))\<close>: the names without repetition. The order in which a set is
  iterated is the interpreter's; the model takes the order of first occurrence. Every
  row's attributes hold the key \<open>columns[0]\<close>, so the subscript is a lookup.
\<close>

definition uniq_names_of :: "pyval list \<Rightarrow> pyerr + pyval list" where
  "uniq_names_of names = (if list_all hashable names then Inr (remdups names) else Inl TypeError)"

text \<open>The second loop: the walk over the batch with the set \<open>added_names\<close>.\<close>

fun mark_duplicates ::
  "(pyval \<times> bool) list \<Rightarrow> (pyval \<times> pydict \<times> pyval) list \<Rightarrow> pyval list \<Rightarrow> company_entry list"
where
  "mark_duplicates name_to_duplicate_db [] added_names = []"
| "mark_duplicates name_to_duplicate_db ((cid, attrs, name) # rest) added_names =
     (let duplicate =
            ((case map_of name_to_duplicate_db name of None \<Rightarrow> False | Some b \<Rightarrow> b)
             \<or> name \<in> set added_names)
      in (cid, attrs, name, duplicate) #
         mark_duplicates name_to_duplicate_db rest (name # added_names))"

definition persist_company :: "env \<Rightarrow> companies \<Rightarrow> pyval \<Rightarrow> pyerr + companies" where
  "persist_company e engine json =
     (let columns = map fst ACCOUNT_FIELDS_MAP in
      case results_of json of
        Inl err \<Rightarrow> Inl err
      | Inr results \<Rightarrow>
          (case company_entries e results of
             Inl err \<Rightarrow> Inl err
           | Inr id_attrs_list \<Rightarrow>
               (case uniq_names_of (map (\<lambda>(cid, attrs, name). dict_get attrs (columns ! 0))
                                      id_attrs_list) of
                  Inl err \<Rightarrow> Inl err
                | Inr uniq_names \<Rightarrow>
                    (case find_companies_by_name engine (Some uniq_names) of
                       Inl err \<Rightarrow> Inl err
                     | Inr ids_seen_before \<Rightarrow>
                         add_companies engine
                           (mark_duplicates (zip uniq_names (map py_truthy ids_seen_before))
                              id_attrs_list [])))))"

section \<open>translator.py: building the CSV files\<close>

text \<open>
  The files of the working directory, by name. A parquet file is the list of its rows
  (the batches in which they are read only pace the progress reports, which the model
  leaves out); the database file is its table; a CSV file is the list of its lines, each
  the list of its cells, the header line first.
\<close>

datatype file_content =
    Parquet "pydict list"
  | Sqlite companies
  | Csv "pyval list list"
  | OtherFile

type_synonym files = "ustring \<rightharpoonup> file_content"

definition build_missing_field_error :: "ustring \<times> ustring \<Rightarrow> ustring \<Rightarrow> ustring" where
  "build_missing_field_error missing_field path =
     (case missing_field of
        (src, sf_label) \<Rightarrow>
          py_replace (u ''$sf_label$'') sf_label
            (py_replace (u ''$hs_name$'') src
               (py_replace (u ''$url_path$'') path MISSING_VALUE)))"

definition normalize_csv_empty_values :: "pydict \<Rightarrow> pydict" where
  "normalize_csv_empty_values row = map (\<lambda>(k, v). (k, if v = PNone then PStr [] else v)) row"

text \<open>
  \<open>csv.DictWriter.writerow\<close>: a key outside the field names is an error; a field name
  the row lacks is written as the empty string.
\<close>

definition writerow :: "ustring list \<Rightarrow> pydict \<Rightarrow> pyerr + pyval list" where
  "writerow fieldnames row =
     (let wrong_fields = filter (\<lambda>k. k \<notin> set fieldnames) (map fst row) in
      if wrong_fields \<noteq> []
      then Inl (ValueError (u ''dict contains fields not in fieldnames: '') (map PStr wrong_fields))
      else Inr (map (\<lambda>k. case map_of row k of None \<Rightarrow> PStr [] | Some v \<Rightarrow> v) fieldnames))"

text \<open>\<open>if error_str:\<close> on a message that is \<open>None\<close> or a string.\<close>

definition error_set :: "ustring option \<Rightarrow> bool" where
  "error_set error_str = (case error_str of None \<Rightarrow> False | Some s \<Rightarrow> s \<noteq> [])"

type_synonym joined = "pydict \<times> ustring option"

text \<open>
  The body of the loop of \<open>_build_accounts_contacts\<close> up to the normalised row: the row
  to write and the message staged for it.
\<close>

definition join_contact :: "companies \<Rightarrow> pydict \<Rightarrow> pyerr + joined" where
  "join_contact engine row =
     (let error_str =
            (case first_missing_field CONTACT_FIELDS_MAP row of
               Some missing_contact_field \<Rightarrow>
                 Some (build_missing_field_error missing_contact_field hubspot_api_contacts_path)
             | None \<Rightarrow> None)
      in case dict_pop row COMPANY_ID_COLUMN of
        Inl err \<Rightarrow> Inl err
      | Inr (company_id, row) \<Rightarrow>
          if py_truthy company_id then
            (case get_company engine company_id of
               Inl err \<Rightarrow> Inl err
             | Inr (company_attrs, duplicate) \<Rightarrow>
                 let row = dict_update company_attrs row;
                     error_str =
                       (if \<not> error_set error_str then
                          (case first_missing_field ACCOUNT_FIELDS_MAP company_attrs of
                             Some missing_company_field \<Rightarrow>
                               Some (build_missing_field_error missing_company_field
                                       hubspot_api_companies_path)
                           | None \<Rightarrow> if duplicate then Some DUPLICATE_COMPANY else error_str)
                        else error_str)
                 in Inr (normalize_csv_empty_values row, error_str))
          else Inr (normalize_csv_empty_values row, error_str))"

text \<open>The same for \<open>_build_opportunities\<close>.\<close>

definition join_deal :: "companies \<Rightarrow> pydict \<Rightarrow> pyerr + joined" where
  "join_deal engine row =
     (let error_str =
            (case first_missing_field DEAL_FIELDS_MAP row of
               Some missing_deal_field \<Rightarrow>
                 Some (build_missing_field_error missing_deal_field hubspot_api_deals_path)
             | None \<Rightarrow> None)
      in case dict_pop row COMPANY_ID_COLUMN of
        Inl err \<Rightarrow> Inl err
      | Inr (company_id, row) \<Rightarrow>
          if py_truthy company_id then
            (case get_company engine company_id of
               Inl err \<Rightarrow> Inl err
             | Inr (company_attrs, duplicate) \<Rightarrow>
                 (case dict_getitem company_attrs ACCOUNTS_NAME_COLUMN of
                    Inl err \<Rightarrow> Inl err
                  | Inr company_name \<Rightarrow>
                      let row = dict_set row OPPORTUNITIES_ACCOUNT_NAME_COLUMN company_name;
                          error_str =
                            (if \<not> error_set error_str then
                               (case first_missing_field ACCOUNT_FIELDS_MAP company_attrs of
                                  Some missing_company_field \<Rightarrow>
                                    Some (build_missing_field_error missing_company_field
                                            hubspot_api_companies_path)
                                | None \<Rightarrow> if duplicate then Some DUPLICATE_COMPANY else error_str)
                             else error_str)
                      in Inr (normalize_csv_empty_values row, error_str)))
          else Inr (normalize_csv_empty_values row, error_str))"

text \<open>The two writers and the counters \<open>stats\<close>, as the loop updates them.\<close>

record join_state =
  output_csv :: "pyval list list"
  errors_csv :: "pyval list list"
  total_rows :: nat
  error_rows :: nat

text \<open>The end of the loop body: the row goes to one of the two writers.\<close>

definition write_joined :: "ustring list \<Rightarrow> ustring list \<Rightarrow> join_state \<Rightarrow> joined \<Rightarrow> pyerr + join_state"
where
  "write_joined field_names error_filed_names st j =
     (case j of
        (row, error_str) \<Rightarrow>
          if error_set error_str then
            (case writerow error_filed_names (dict_set row ERROR_COLUMN (opt_str error_str)) of
               Inl err \<Rightarrow> Inl err
             | Inr line \<Rightarrow>
                 Inr (st\<lparr>errors_csv := errors_csv st @ [line],
                          error_rows := error_rows st + 1,
                          total_rows := total_rows st + 1\<rparr>))
          else
            (case writerow field_names row of
               Inl err \<Rightarrow> Inl err
             | Inr line \<Rightarrow>
                 Inr (st\<lparr>output_csv := output_csv st @ [line],
                          total_rows := total_rows st + 1\<rparr>)))"

text \<open>
  The loop over the rows. An exception leaves the loop with what was written so far.
\<close>

fun join_rows ::
  "(pydict \<Rightarrow> pyerr + joined) \<Rightarrow> ustring list \<Rightarrow> ustring list \<Rightarrow> pydict list \<Rightarrow> join_state
     \<Rightarrow> join_state \<times> pyerr option"
where
  "join_rows join field_names error_filed_names [] st = (st, None)"
| "join_rows join field_names error_filed_names (row # rows) st =
     (case join row of
        Inl err \<Rightarrow> (st, Some err)
      | Inr j \<Rightarrow>
          (case write_joined field_names error_filed_names st j of
             Inl err \<Rightarrow> (st, Some err)
           | Inr st' \<Rightarrow> join_rows join field_names error_filed_names rows st'))"

definition read_parquet :: "files \<Rightarrow> ustring \<Rightarrow> pyerr + pydict list" where
  "read_parquet fs path =
     (case fs path of
        None \<Rightarrow> Inl FileNotFoundError
      | Some (Parquet rows) \<Rightarrow> Inr rows
      | Some _ \<Rightarrow> Inl ArrowInvalid)"

text \<open>
  What the two passes share: both files are opened for writing and get their header, the
  rows are joined and written, and the error file is deleted when no row went to it. The
  result is the files after the pass and the counters \<open>(total_rows, error_rows)\<close>.
\<close>

definition write_csvs ::
  "(pydict \<Rightarrow> pyerr + joined) \<Rightarrow> ustring list \<Rightarrow> ustring list \<Rightarrow> pydict list \<Rightarrow> files
     \<Rightarrow> ustring \<Rightarrow> ustring \<Rightarrow> files \<times> (pyerr + nat \<times> nat)"
where
  "write_csvs join field_names error_filed_names rows fs output_csv_path errors_csv_path =
     (let st0 = \<lparr>output_csv = [map PStr field_names],
                 errors_csv = [map PStr error_filed_names],
                 total_rows = 0, error_rows = 0\<rparr>;
          (st, raised) = join_rows join field_names error_filed_names rows st0;
          fs' = fs(output_csv_path \<mapsto> Csv (output_csv st),
                   errors_csv_path \<mapsto> Csv (errors_csv st))
      in case raised of
        Some err \<Rightarrow> (fs', Inl err)
      | None \<Rightarrow>
          if 0 = error_rows st
          then (fs'(errors_csv_path := None), Inr (total_rows st, error_rows st))
          else (fs', Inr (total_rows st, error_rows st)))"

definition build_accounts_contacts ::
  "companies \<Rightarrow> files \<Rightarrow> ustring \<Rightarrow> ustring \<Rightarrow> ustring \<Rightarrow> files \<times> (pyerr + nat \<times> nat)"
where
  "build_accounts_contacts engine fs contacts_path output_csv_path errors_csv_path =
     (let account_filed_names = map fst ACCOUNT_FIELDS_MAP;
          contact_field_names = remove1 COMPANY_ID_COLUMN (map fst CONTACT_FIELDS_MAP);
          field_names = account_filed_names @ contact_field_names;
          error_filed_names = ERROR_COLUMN # field_names
      in case read_parquet fs contacts_path of
        Inl err \<Rightarrow> (fs, Inl err)
      | Inr rows \<Rightarrow>
          write_csvs (join_contact engine) field_names error_filed_names rows fs
            output_csv_path errors_csv_path)"

definition build_opportunities ::
  "companies \<Rightarrow> files \<Rightarrow> ustring \<Rightarrow> ustring \<Rightarrow> ustring \<Rightarrow> files \<times> (pyerr + nat \<times> nat)"
where
  "build_opportunities engine fs deals_path output_csv_path errors_csv_path =
     (let opportunities_field_names =
            remove1 COMPANY_ID_COLUMN (map fst DEAL_FIELDS_MAP) @ [OPPORTUNITIES_ACCOUNT_NAME_COLUMN];
          error_filed_names = ERROR_COLUMN # opportunities_field_names
      in case read_parquet fs deals_path of
        Inl err \<Rightarrow> (fs, Inl err)
      | Inr rows \<Rightarrow>
          write_csvs (join_deal engine) opportunities_field_names error_filed_names rows fs
            output_csv_path errors_csv_path)"

text \<open>The check at the start of \<open>build_sf_csvs\<close>.\<close>

fun check_files :: "files \<Rightarrow> ustring list \<Rightarrow> pyerr + unit" where
  "check_files fs [] = Inr ()"
| "check_files fs (filename # rest) =
     (if fs filename = None
      then Inl (ValueError (u ''No '' @ filename @ u '' file found'') [])
      else check_files fs rest)"

definition initialize_db :: "files \<Rightarrow> ustring \<Rightarrow> files \<times> (pyerr + companies)" where
  "initialize_db fs path =
     (case fs path of
        None \<Rightarrow> (fs(path \<mapsto> Sqlite []), Inr [])
      | Some (Sqlite tbl) \<Rightarrow> (fs, Inr tbl)
      | Some _ \<Rightarrow> (fs, Inl DatabaseError))"

record aggregated_stats =
  accounts_contacts_total_rows :: nat
  accounts_contacts_valid_rows :: nat
  accounts_contacts_error_rows :: nat
  opportunities_total_rows :: nat
  opportunities_valid_rows :: nat
  opportunities_error_rows :: nat

definition build_sf_csvs :: "files \<Rightarrow> files \<times> (pyerr + aggregated_stats)" where
  "build_sf_csvs fs =
     (let check_filenames = [contacts_filename, deals_filename, companies_filename] in
      case check_files fs check_filenames of
        Inl err \<Rightarrow> (fs, Inl err)
      | Inr _ \<Rightarrow>
          (case initialize_db fs companies_filename of
             (fs, Inl err) \<Rightarrow> (fs, Inl err)
           | (fs, Inr engine) \<Rightarrow>
               (case build_accounts_contacts engine fs contacts_filename
                       csv_accounts_contacts_filename csv_errors_accounts_contacts_filename of
                  (fs, Inl err) \<Rightarrow> (fs, Inl err)
                | (fs, Inr (ac_total, ac_error)) \<Rightarrow>
                    (case build_opportunities engine fs deals_filename
                            csv_opportunities_filename csv_errors_opportunities_filename of
                       (fs, Inl err) \<Rightarrow> (fs, Inl err)
                     | (fs, Inr (op_total, op_error)) \<Rightarrow>
                         (fs, Inr \<lparr>accounts_contacts_total_rows = ac_total,
                                    accounts_contacts_valid_rows = ac_total - ac_error,
                                    accounts_contacts_error_rows = ac_error,
                                    opportunities_total_rows = op_total,
                                    opportunities_valid_rows = op_total - op_error,
                                    opportunities_error_rows = op_error\<rparr>)))))"

section \<open>Vocabulary of the properties\<close>



text \<open>
  The name of a company of a response: the value of \<open>name\<close> among its \<open>properties\<close>,
  which is what \<open>_persist_company\<close> stores as the name of its row.
\<close>

definition company_name :: "pyval \<Rightarrow> pyval" where
  "company_name res =
     (case res of
        PDict d \<Rightarrow>
          (case dict_get d (u ''properties'') of
             PDict p \<Rightarrow> dict_get p (u ''name'')
           | _ \<Rightarrow> PNone)
      | _ \<Rightarrow> PNone)"

text \<open>
  The strings that UTF-8 encodes, which are the strings the driver of the store can bind:
  every code point is a Unicode scalar value, that is, none is a surrogate.
\<close>

definition utf8_encodable :: "ustring \<Rightarrow> bool" where
  "utf8_encodable s = list_all (\<lambda>c. c < 0xD800 \<or> (0xDFFF < c \<and> c \<le> 0x10FFFF)) s"

section \<open>Properties of the address parser\<close>

lemma u_eq_iff [simp]: "u a = u b \<longleftrightarrow> a = b"
  unfolding u_def by (simp add: inj_map_eq_map inj_def)

lemma split_on_not_Nil [simp]: "split_on sep s \<noteq> []"
  by (induction s) (auto split: list.splits)

lemma collect_parts_eq:
  "collect_parts ua parts zp cp =
     (zp @ takeWhile (\<lambda>t. \<not> py_isalpha ua t) parts,
      dropWhile (\<lambda>t. \<not> py_isalpha ua t) parts @ cp)"
  by (induction parts arbitrary: zp) auto

lemma normalize_address_Nil: "normalize_address [] = []"
  by (simp add: normalize_address_def re_sub_runs_def strip_def)

lemma last_tl_long: "2 \<le> length xs \<Longrightarrow> last (tl xs) = last xs"
  by (cases xs) auto

lemma parse_address_str:
  "parse_address ua (PStr s) = Inr
     (let segs = split_on 44 (normalize_address s) in
      if length segs = 2 \<and> 2 \<le> length (split_on 32 (strip (segs ! 1))) then
        let toks = split_on 32 (strip (segs ! 1));
            interior = butlast (tl toks)
        in (Some (join_sp (dropWhile (\<lambda>t. \<not> py_isalpha ua t) interior @ [last toks])),
            Some (segs ! 0),
            Some (join_sp (hd toks # takeWhile (\<lambda>t. \<not> py_isalpha ua t) interior)))
      else (None, None, None))"
proof (cases "normalize_address s = []")
  case True
  then show ?thesis
    by (simp add: parse_address_def Let_def)
next
  case False
  then have "s \<noteq> []" using normalize_address_Nil by auto
  with False show ?thesis
    by (simp add: parse_address_def Let_def collect_parts_eq not_less last_tl_long)
qed

lemmas parse_eval =
  parse_address_def normalize_address_def re_sub_runs_def strip_def u_def py_isspace_def
  is_cr_lf_def Let_def py_isalpha_def alpha_char_def

lemma parse_main_street:
  "parse_address ua (PStr (u ''Main Street 42, 10115 Berlin'')) =
     Inr (Some (u ''Berlin''), Some (u ''Main Street 42''), Some (u ''10115''))"
  by (simp add: parse_eval)

lemma parse_baker_street:
  "parse_address ua (PStr (u ''Baker Street 10, SW1A 1AA London'')) =
     Inr (Some (u ''London''), Some (u ''Baker Street 10''), Some (u ''SW1A 1AA''))"
  by (simp add: parse_eval)

lemma parse_no_comma:
  "parse_address ua (PStr (u ''Hauptstra'' @ [223] @ u ''e 5 80331 M'' @ [252] @ u ''nchen'')) =
     Inr (None, None, None)"
  by (simp add: parse_eval)

lemma parse_empty: "parse_address ua (PStr (u '''')) = Inr (None, None, None)"
  by (simp add: parse_address_def u_def)

text \<open>
  Claim C5. For every input string, \<open>parse_address\<close> returns three \<open>None\<close>s unless the
  normalised address splits at its commas into exactly two segments and the second
  segment, stripped, splits at its spaces into at least two tokens. Otherwise the street is
  the first segment, the postal code is the first token followed by the interior tokens
  before the first purely alphabetic one, and the city is the interior tokens from that
  one on followed by the last token. The four addresses of the specification give the
  results it lists, whatever the letter table beyond ASCII is.
\<close>

theorem parse_address_spec:
  "parse_address ua (PStr s) = Inr
     (let segs = split_on 44 (normalize_address s) in
      if length segs = 2 \<and> 2 \<le> length (split_on 32 (strip (segs ! 1))) then
        let toks = split_on 32 (strip (segs ! 1));
            interior = butlast (tl toks)
        in (Some (join_sp (dropWhile (\<lambda>t. \<not> py_isalpha ua t) interior @ [last toks])),
            Some (segs ! 0),
            Some (join_sp (hd toks # takeWhile (\<lambda>t. \<not> py_isalpha ua t) interior)))
      else (None, None, None))
   \<and> parse_address ua (PStr (u ''Main Street 42, 10115 Berlin'')) =
       Inr (Some (u ''Berlin''), Some (u ''Main Street 42''), Some (u ''10115''))
   \<and> parse_address ua (PStr (u ''Baker Street 10, SW1A 1AA London'')) =
       Inr (Some (u ''London''), Some (u ''Baker Street 10''), Some (u ''SW1A 1AA''))
   \<and> parse_address ua (PStr (u ''Hauptstra'' @ [223] @ u ''e 5 80331 M'' @ [252] @ u ''nchen'')) =
       Inr (None, None, None)
   \<and> parse_address ua (PStr (u '''')) = Inr (None, None, None)"
  using parse_address_str parse_main_street parse_baker_street parse_no_comma parse_empty
  by blast

theorem parse_address_spec_witness:
  "parse_address (\<lambda>c. c = 252) (PStr (u ''Isartor 1, 80331 M'' @ [252] @ u ''nchen Ost'')) =
     Inr (Some (u ''M'' @ [252] @ u ''nchen Ost''), Some (u ''Isartor 1''), Some (u ''80331''))"
proof -
  have "parse_address (\<lambda>c. c = 252) (PStr (u ''Isartor 1, 80331 M'' @ [252] @ u ''nchen Ost'')) = Inr
     (let segs = split_on 44 (normalize_address (u ''Isartor 1, 80331 M'' @ [252] @ u ''nchen Ost'')) in
      if length segs = 2 \<and> 2 \<le> length (split_on 32 (strip (segs ! 1))) then
        let toks = split_on 32 (strip (segs ! 1));
            interior = butlast (tl toks)
        in (Some (join_sp (dropWhile (\<lambda>t. \<not> py_isalpha (\<lambda>c. c = 252) t) interior @ [last toks])),
            Some (segs ! 0),
            Some (join_sp (hd toks # takeWhile (\<lambda>t. \<not> py_isalpha (\<lambda>c. c = 252) t) interior)))
      else (None, None, None))"
    using parse_address_spec by blast
  then show ?thesis
    by (simp add: normalize_address_def re_sub_runs_def strip_def u_def py_isspace_def
        is_cr_lf_def Let_def py_isalpha_def alpha_char_def)
qed

lemma u_Nil_iff [simp]: "u s = [] \<longleftrightarrow> s = []"
  by (simp add: u_def)

lemma Nil_u_iff [simp]: "[] = u s \<longleftrightarrow> s = []"
  by (auto simp add: u_def)

section \<open>Properties of the field mapping\<close>

lemma first_missing_field_None:
  "first_missing_field fm attrs = None \<longleftrightarrow>
     (\<forall>(sf_label, field) \<in> set fm. required field \<longrightarrow> py_truthy (dict_get attrs sf_label))"
  by (induction fm) (auto split: if_splits)

lemma first_missing_field_Some:
  "first_missing_field fm attrs = Some (src, sf_label) \<longleftrightarrow>
     (\<exists>i < length fm.
        fst (fm ! i) = sf_label \<and> src_field (snd (fm ! i)) = src \<and>
        required (snd (fm ! i)) \<and> \<not> py_truthy (dict_get attrs sf_label) \<and>
        (\<forall>j < i. \<not> (required (snd (fm ! j)) \<and> \<not> py_truthy (dict_get attrs (fst (fm ! j))))))"
proof (induction fm)
  case Nil
  then show ?case by simp
next
  case (Cons a fm)
  obtain l f where a: "a = (l, f)" by (cases a)
  show ?case
  proof (cases "required f \<and> \<not> py_truthy (dict_get attrs l)")
    case True
    have "(\<exists>i < length (a # fm).
        fst ((a # fm) ! i) = sf_label \<and> src_field (snd ((a # fm) ! i)) = src \<and>
        required (snd ((a # fm) ! i)) \<and> \<not> py_truthy (dict_get attrs sf_label) \<and>
        (\<forall>j < i. \<not> (required (snd ((a # fm) ! j)) \<and> \<not> py_truthy (dict_get attrs (fst ((a # fm) ! j))))))
      \<longleftrightarrow> (l = sf_label \<and> src_field f = src)" (is "?L \<longleftrightarrow> ?R")
    proof
      assume ?L
      then obtain i where i: "i < length (a # fm)" "fst ((a # fm) ! i) = sf_label"
        "src_field (snd ((a # fm) ! i)) = src"
        "\<forall>j < i. \<not> (required (snd ((a # fm) ! j)) \<and> \<not> py_truthy (dict_get attrs (fst ((a # fm) ! j))))"
        by blast
      have "i = 0"
      proof (rule ccontr)
        assume "i \<noteq> 0"
        then have "0 < i" by simp
        with i(4) have "\<not> (required (snd ((a # fm) ! 0)) \<and> \<not> py_truthy (dict_get attrs (fst ((a # fm) ! 0))))"
          by blast
        with True a show False by simp
      qed
      with i a show ?R by simp
    next
      assume ?R
      with True a have "0 < length (a # fm) \<and>
        fst ((a # fm) ! 0) = sf_label \<and> src_field (snd ((a # fm) ! 0)) = src \<and>
        required (snd ((a # fm) ! 0)) \<and> \<not> py_truthy (dict_get attrs sf_label) \<and>
        (\<forall>j < 0. \<not> (required (snd ((a # fm) ! j)) \<and> \<not> py_truthy (dict_get attrs (fst ((a # fm) ! j)))))"
        by auto
      then show ?L by blast
    qed
    with True a show ?thesis by auto
  next
    case False
    have "(\<exists>i < length (a # fm).
        fst ((a # fm) ! i) = sf_label \<and> src_field (snd ((a # fm) ! i)) = src \<and>
        required (snd ((a # fm) ! i)) \<and> \<not> py_truthy (dict_get attrs sf_label) \<and>
        (\<forall>j < i. \<not> (required (snd ((a # fm) ! j)) \<and> \<not> py_truthy (dict_get attrs (fst ((a # fm) ! j))))))
      \<longleftrightarrow> (\<exists>i < length fm.
        fst (fm ! i) = sf_label \<and> src_field (snd (fm ! i)) = src \<and>
        required (snd (fm ! i)) \<and> \<not> py_truthy (dict_get attrs sf_label) \<and>
        (\<forall>j < i. \<not> (required (snd (fm ! j)) \<and> \<not> py_truthy (dict_get attrs (fst (fm ! j))))))"
      (is "?L \<longleftrightarrow> ?R")
    proof
      assume ?L
      then obtain i where i: "i < length (a # fm)" "fst ((a # fm) ! i) = sf_label"
        "src_field (snd ((a # fm) ! i)) = src" "required (snd ((a # fm) ! i))"
        "\<not> py_truthy (dict_get attrs sf_label)"
        "\<forall>j < i. \<not> (required (snd ((a # fm) ! j)) \<and> \<not> py_truthy (dict_get attrs (fst ((a # fm) ! j))))"
        by blast
      from i False a obtain k where k: "i = Suc k" by (cases i) auto
      have "\<forall>j < k. \<not> (required (snd (fm ! j)) \<and> \<not> py_truthy (dict_get attrs (fst (fm ! j))))"
      proof (intro allI impI)
        fix j assume "j < k"
        then have "Suc j < i" using k by simp
        with i(6) have "\<not> (required (snd ((a # fm) ! Suc j)) \<and> \<not> py_truthy (dict_get attrs (fst ((a # fm) ! Suc j))))"
          by blast
        then show "\<not> (required (snd (fm ! j)) \<and> \<not> py_truthy (dict_get attrs (fst (fm ! j))))" by simp
      qed
      with i k show ?R by auto
    next
      assume ?R
      then obtain k where k: "k < length fm" "fst (fm ! k) = sf_label"
        "src_field (snd (fm ! k)) = src" "required (snd (fm ! k))"
        "\<not> py_truthy (dict_get attrs sf_label)"
        "\<forall>j < k. \<not> (required (snd (fm ! j)) \<and> \<not> py_truthy (dict_get attrs (fst (fm ! j))))"
        by blast
      have "\<forall>j < Suc k. \<not> (required (snd ((a # fm) ! j)) \<and> \<not> py_truthy (dict_get attrs (fst ((a # fm) ! j))))"
      proof (intro allI impI)
        fix j assume j: "j < Suc k"
        show "\<not> (required (snd ((a # fm) ! j)) \<and> \<not> py_truthy (dict_get attrs (fst ((a # fm) ! j))))"
        proof (cases j)
          case 0
          with False a show ?thesis by simp
        next
          case (Suc j')
          with j k(6) show ?thesis by simp
        qed
      qed
      with k have "Suc k < length (a # fm) \<and>
        fst ((a # fm) ! Suc k) = sf_label \<and> src_field (snd ((a # fm) ! Suc k)) = src \<and>
        required (snd ((a # fm) ! Suc k)) \<and> \<not> py_truthy (dict_get attrs sf_label) \<and>
        (\<forall>j < Suc k. \<not> (required (snd ((a # fm) ! j)) \<and> \<not> py_truthy (dict_get attrs (fst ((a # fm) ! j)))))"
        by simp
      then show ?L by blast
    qed
    with False a Cons.IH show ?thesis by auto
  qed
qed

lemma falsy_values:
  "\<not> py_truthy v \<longleftrightarrow> v = PNone \<or> v = PStr [] \<or> v = PInt 0 \<or> v = PList [] \<or> v = PDict []"
  by (cases v) auto

lemma dict_get_absent: "k \<notin> fst ` set d \<Longrightarrow> dict_get d k = PNone"
  using map_of_eq_None_iff[of d k] by (simp add: dict_get_def)


text \<open>
  Claim C6. \<open>first_missing_field\<close> returns the source field and the target label of the
  earliest mapping of the table that is required and whose attribute value is falsy
  (\<open>None\<close>, also for a label the row lacks, the empty string, zero, an empty list or
  dictionary), and it returns \<open>None\<close> exactly when no required mapping has a falsy value.
\<close>

theorem first_missing_field_spec:
  "(first_missing_field fm attrs = Some (src, sf_label) \<longleftrightarrow>
      (\<exists>i < length fm.
         fst (fm ! i) = sf_label \<and> src_field (snd (fm ! i)) = src \<and>
         required (snd (fm ! i)) \<and> \<not> py_truthy (dict_get attrs sf_label) \<and>
         (\<forall>j < i. \<not> (required (snd (fm ! j)) \<and> \<not> py_truthy (dict_get attrs (fst (fm ! j)))))))
   \<and> (first_missing_field fm attrs = None \<longleftrightarrow>
      (\<forall>(l, field) \<in> set fm. required field \<longrightarrow> py_truthy (dict_get attrs l)))
   \<and> (\<not> py_truthy v \<longleftrightarrow> v = PNone \<or> v = PStr [] \<or> v = PInt 0 \<or> v = PList [] \<or> v = PDict [])
   \<and> (k \<notin> fst ` set attrs \<longrightarrow> dict_get attrs k = PNone)"
  using first_missing_field_Some [of fm attrs src sf_label] first_missing_field_None [of fm attrs]
    falsy_values [of v] dict_get_absent [of k attrs]
  by blast

lemmas table_defs =
  ACCOUNT_FIELDS_MAP_def CONTACT_FIELDS_MAP_def DEAL_FIELDS_MAP_def
  ACCOUNTS_NAME_COLUMN_def COMPANY_ID_COLUMN_def

theorem first_missing_field_spec_witness:
  "first_missing_field DEAL_FIELDS_MAP
     [(u ''company_id'', PStr (u ''17'')), (u ''Name'', PStr (u ''Renewal'')),
      (u ''Type'', PNone), (u ''Stage'', PStr []), (u ''Amount'', PInt 0),
      (u ''Close Date'', PNone)]
   = Some (u ''dealstage'', u ''Stage'')
   \<and> first_missing_field DEAL_FIELDS_MAP
     [(u ''company_id'', PStr (u ''17'')), (u ''Name'', PStr (u ''Renewal'')),
      (u ''Stage'', PStr (u ''Qualify'')), (u ''Close Date'', PStr (u ''2025-12-20 00:00:00''))]
   = None"
proof -
  let ?a = "[(u ''company_id'', PStr (u ''17'')), (u ''Name'', PStr (u ''Renewal'')),
      (u ''Type'', PNone), (u ''Stage'', PStr []), (u ''Amount'', PInt 0),
      (u ''Close Date'', PNone)]"
  let ?b = "[(u ''company_id'', PStr (u ''17'')), (u ''Name'', PStr (u ''Renewal'')),
      (u ''Stage'', PStr (u ''Qualify'')), (u ''Close Date'', PStr (u ''2025-12-20 00:00:00''))]"
  have "3 < length DEAL_FIELDS_MAP \<and>
         fst (DEAL_FIELDS_MAP ! 3) = u ''Stage'' \<and> src_field (snd (DEAL_FIELDS_MAP ! 3)) = u ''dealstage'' \<and>
         required (snd (DEAL_FIELDS_MAP ! 3)) \<and> \<not> py_truthy (dict_get ?a (u ''Stage'')) \<and>
         (\<forall>j < 3. \<not> (required (snd (DEAL_FIELDS_MAP ! j)) \<and>
                     \<not> py_truthy (dict_get ?a (fst (DEAL_FIELDS_MAP ! j)))))"
    by (simp add: table_defs dict_get_def less_Suc_eq numeral_3_eq_3)
  then have 1: "first_missing_field DEAL_FIELDS_MAP ?a = Some (u ''dealstage'', u ''Stage'')"
    using first_missing_field_spec [of DEAL_FIELDS_MAP ?a "u ''dealstage''" "u ''Stage''"]
    by blast
  have "\<forall>(l, field) \<in> set DEAL_FIELDS_MAP. required field \<longrightarrow> py_truthy (dict_get ?b l)"
    by (simp add: table_defs dict_get_def)
  then have 2: "first_missing_field DEAL_FIELDS_MAP ?b = None"
    using first_missing_field_spec [of DEAL_FIELDS_MAP ?b] by blast
  from 1 2 show ?thesis by simp
qed

lemmas transform_defs =
  account_website_def split_street_from_city_zip_code_def ctx_item_def
  get_company_id_from_assoc_def map_lookup_def get_closedate_def

lemma build_attrs_account:
  "build_attrs e ACCOUNT_FIELDS_MAP (PDict d) =
     (case dict_get d (u ''domain'') of
        PStr s \<Rightarrow>
          (case parse_address (uni_alpha e) (dict_get d (u ''address'')) of
             Inl err \<Rightarrow> Inl err
           | Inr (city, street, zip_code) \<Rightarrow>
               Inr [(u ''Account Name'', dict_get d (u ''name'')),
                    (u ''Account Website'', PStr (u ''https://'' @ s)),
                    (u ''Account Billing Street'', opt_str street),
                    (u ''Account Billing City'', opt_str city),
                    (u ''Account Billing Zip/Postal Code'', opt_str zip_code),
                    (u ''Account Billing Country'', dict_get d (u ''country''))])
      | _ \<Rightarrow> Inl TypeError)"
  by (simp add: build_attrs_def table_defs py_get_def transform_defs dict_getitem_def
      dict_update_def split: pyval.splits sum.splits prod.splits)

lemma build_attrs_not_dict:
  "(\<forall>d. r \<noteq> PDict d) \<Longrightarrow> fm \<noteq> [] \<Longrightarrow> build_attrs e fm r = Inl AttributeError"
  by (cases fm; cases r) (auto simp add: build_attrs_def py_get_def)

lemma build_attrs_loop_env_cong:
  assumes "\<forall>(l, fld) \<in> set fm. \<forall>f src. transform_fun fld = Some f \<longrightarrow>
             py_get r (src_field fld) = Inr src \<longrightarrow> (\<forall>c. f e1 src c = f e2 src c)"
  shows "build_attrs_loop e1 fm r a c = build_attrs_loop e2 fm r a c"
  using assms
proof (induction fm arbitrary: a c)
  case Nil
  then show ?case by simp
next
  case (Cons x fm)
  obtain l fld where x: "x = (l, fld)" by (cases x)
  from Cons.prems have rest:
    "\<forall>(l, fld) \<in> set fm. \<forall>f src. transform_fun fld = Some f \<longrightarrow>
             py_get r (src_field fld) = Inr src \<longrightarrow> (\<forall>c. f e1 src c = f e2 src c)"
    by simp
  from Cons.prems x have hd:
    "\<And>f src c. transform_fun fld = Some f \<Longrightarrow> py_get r (src_field fld) = Inr src
       \<Longrightarrow> f e1 src c = f e2 src c"
    by simp
  show ?case
  proof (cases "py_get r (src_field fld)")
    case (Inl err)
    then show ?thesis using x by simp
  next
    case (Inr src)
    show ?thesis
    proof (cases "transform_fun fld")
      case None
      then show ?thesis using x Inr Cons.IH [OF rest] by simp
    next
      case (Some f)
      have "f e1 src c = f e2 src c" using hd [OF Some Inr] .
      then show ?thesis
        using x Inr Some Cons.IH [OF rest]
        by (simp split: sum.splits transform_result.splits)
    qed
  qed
qed

lemma build_attrs_account_clock:
  "build_attrs (e\<lparr>now := t1\<rparr>) ACCOUNT_FIELDS_MAP r = build_attrs (e\<lparr>now := t2\<rparr>) ACCOUNT_FIELDS_MAP r"
  unfolding build_attrs_def
  by (rule build_attrs_loop_env_cong) (simp add: table_defs transform_defs)

lemma build_attrs_contact_clock:
  "build_attrs (e\<lparr>now := t1\<rparr>) CONTACT_FIELDS_MAP r = build_attrs (e\<lparr>now := t2\<rparr>) CONTACT_FIELDS_MAP r"
  unfolding build_attrs_def
  by (rule build_attrs_loop_env_cong) (simp add: table_defs transform_defs)

lemma build_attrs_deal_clock:
  assumes "case r of
             PDict d \<Rightarrow> py_truthy (dict_get d (u ''closedate'')) \<or>
                        (year t1 = year t2 \<and> month t1 = month t2 \<and> day t1 = day t2)
           | _ \<Rightarrow> True"
  shows "build_attrs (e\<lparr>now := t1\<rparr>) DEAL_FIELDS_MAP r = build_attrs (e\<lparr>now := t2\<rparr>) DEAL_FIELDS_MAP r"
  unfolding build_attrs_def
  using assms
  by (intro build_attrs_loop_env_cong)
     (auto simp add: table_defs transform_defs py_get_def strftime_def split: pyval.splits)

lemma build_attrs_deal_today:
  assumes "build_attrs e DEAL_FIELDS_MAP (PDict d) = Inr attrs"
    and "\<not> py_truthy (dict_get d (u ''closedate''))"
  shows "dict_get attrs (u ''Close Date'') =
           PStr (str_of_nat (year (now e)) @ u ''-'' @ two_digits (month (now e)) @ u ''-'' @
                 two_digits (day (now e)) @ u '' 00:00:00'')"
  using assms
  by (auto simp add: build_attrs_def table_defs py_get_def transform_defs strftime_def
      two_digits_def dict_get_def u_def split: sum.splits transform_result.splits if_splits)


text \<open>
  Claim C10. \<open>build_attrs\<close> with the account table returns attributes only for a source
  record whose \<open>domain\<close> is a string, and then the website is \<open>https://\<close> followed by it.
  When \<open>domain\<close> is \<open>None\<close>, absent or anything but a string, the concatenation raises
  \<open>TypeError\<close> and no attributes are produced, whereas an optional field without a
  transform, such as the country, is copied as it is, \<open>None\<close> included.
\<close>

theorem build_attrs_account_domain:
  "(build_attrs e ACCOUNT_FIELDS_MAP hs_record = Inr attrs \<longrightarrow>
      (\<exists>d s. hs_record = PDict d \<and> dict_get d (u ''domain'') = PStr s \<and>
         dict_get attrs (u ''Account Website'') = PStr (u ''https://'' @ s) \<and>
         dict_get attrs (u ''Account Billing Country'') = dict_get d (u ''country'')))
   \<and> ((\<forall>s. dict_get d (u ''domain'') \<noteq> PStr s) \<longrightarrow>
        build_attrs e ACCOUNT_FIELDS_MAP (PDict d) = Inl TypeError)"
proof (intro conjI impI)
  assume ok: "build_attrs e ACCOUNT_FIELDS_MAP hs_record = Inr attrs"
  have "ACCOUNT_FIELDS_MAP \<noteq> []" by (simp add: ACCOUNT_FIELDS_MAP_def)
  with ok obtain d' where d': "hs_record = PDict d'"
    using build_attrs_not_dict [of hs_record ACCOUNT_FIELDS_MAP e] by auto
  from ok d' obtain s where s: "dict_get d' (u ''domain'') = PStr s"
    by (auto simp add: build_attrs_account split: pyval.splits)
  from ok d' s have
    "dict_get attrs (u ''Account Website'') = PStr (u ''https://'' @ s) \<and>
     dict_get attrs (u ''Account Billing Country'') = dict_get d' (u ''country'')"
    by (auto simp add: build_attrs_account dict_get_def split: sum.splits)
  with d' s show "\<exists>d s. hs_record = PDict d \<and> dict_get d (u ''domain'') = PStr s \<and>
         dict_get attrs (u ''Account Website'') = PStr (u ''https://'' @ s) \<and>
         dict_get attrs (u ''Account Billing Country'') = dict_get d (u ''country'')"
    by blast
next
  assume "\<forall>s. dict_get d (u ''domain'') \<noteq> PStr s"
  then show "build_attrs e ACCOUNT_FIELDS_MAP (PDict d) = Inl TypeError"
    by (simp add: build_attrs_account split: pyval.splits)
qed

theorem build_attrs_account_domain_witness:
  "build_attrs \<lparr>uni_alpha = (\<lambda>c. False),
                 now = \<lparr>year = 2025, month = 12, day = 20, hour = 9, minute = 30, second = 15,
                        microsecond = 0\<rparr>\<rparr>
     ACCOUNT_FIELDS_MAP
     (PDict [(u ''name'', PStr (u ''Acme'')), (u ''domain'', PNone),
             (u ''country'', PStr (u ''Germany''))])
   = Inl TypeError
   \<and> build_attrs \<lparr>uni_alpha = (\<lambda>c. False),
                 now = \<lparr>year = 2025, month = 12, day = 20, hour = 9, minute = 30, second = 15,
                        microsecond = 0\<rparr>\<rparr>
     ACCOUNT_FIELDS_MAP
     (PDict [(u ''name'', PStr (u ''Acme'')), (u ''country'', PStr (u ''Germany''))])
   = Inl TypeError
   \<and> build_attrs \<lparr>uni_alpha = (\<lambda>c. False),
                 now = \<lparr>year = 2025, month = 12, day = 20, hour = 9, minute = 30, second = 15,
                        microsecond = 0\<rparr>\<rparr>
     ACCOUNT_FIELDS_MAP
     (PDict [(u ''name'', PStr (u ''Acme'')), (u ''domain'', PStr (u ''acme.io''))])
   = Inr [(u ''Account Name'', PStr (u ''Acme'')),
          (u ''Account Website'', PStr (u ''https://acme.io'')),
          (u ''Account Billing Street'', PNone),
          (u ''Account Billing City'', PNone),
          (u ''Account Billing Zip/Postal Code'', PNone),
          (u ''Account Billing Country'', PNone)]"
proof -
  let ?e = "\<lparr>uni_alpha = (\<lambda>c. False),
             now = \<lparr>year = 2025, month = 12, day = 20, hour = 9, minute = 30, second = 15,
                    microsecond = 0\<rparr>\<rparr>"
  let ?d1 = "[(u ''name'', PStr (u ''Acme'')), (u ''domain'', PNone),
              (u ''country'', PStr (u ''Germany''))]"
  let ?d2 = "[(u ''name'', PStr (u ''Acme'')), (u ''country'', PStr (u ''Germany''))]"
  have "\<forall>s. dict_get ?d1 (u ''domain'') \<noteq> PStr s" by (simp add: dict_get_def)
  then have 1: "build_attrs ?e ACCOUNT_FIELDS_MAP (PDict ?d1) = Inl TypeError"
    using build_attrs_account_domain [of ?e _ _ ?d1] by blast
  have "\<forall>s. dict_get ?d2 (u ''domain'') \<noteq> PStr s" by (simp add: dict_get_def)
  then have 2: "build_attrs ?e ACCOUNT_FIELDS_MAP (PDict ?d2) = Inl TypeError"
    using build_attrs_account_domain [of ?e _ _ ?d2] by blast
  have 3: "build_attrs ?e ACCOUNT_FIELDS_MAP
     (PDict [(u ''name'', PStr (u ''Acme'')), (u ''domain'', PStr (u ''acme.io''))])
   = Inr [(u ''Account Name'', PStr (u ''Acme'')),
          (u ''Account Website'', PStr (u ''https://acme.io'')),
          (u ''Account Billing Street'', PNone),
          (u ''Account Billing City'', PNone),
          (u ''Account Billing Zip/Postal Code'', PNone),
          (u ''Account Billing Country'', PNone)]"
    by (simp add: build_attrs_account dict_get_def parse_address_def opt_str_def u_def)
  from 1 2 3 show ?thesis by blast
qed


text \<open>
  Claim C2, as amended. \<open>parse_address\<close> reads nothing but its argument and the letter
  table, and \<open>build_attrs\<close> with the account table or the contact table gives the same
  result whatever the clock reads. With the deal table the result is the same at two
  readings of the clock when the record is no dictionary, when its \<open>closedate\<close> is truthy,
  or when the two readings fall on the same day; for a falsy \<open>closedate\<close> the
  \<open>Close Date\<close> is midnight of the day the clock reads.
\<close>

theorem build_attrs_clock:
  "build_attrs (e\<lparr>now := t1\<rparr>) ACCOUNT_FIELDS_MAP r = build_attrs (e\<lparr>now := t2\<rparr>) ACCOUNT_FIELDS_MAP r
   \<and> build_attrs (e\<lparr>now := t1\<rparr>) CONTACT_FIELDS_MAP r = build_attrs (e\<lparr>now := t2\<rparr>) CONTACT_FIELDS_MAP r
   \<and> ((case r of
          PDict d \<Rightarrow> py_truthy (dict_get d (u ''closedate'')) \<or>
                     (year t1 = year t2 \<and> month t1 = month t2 \<and> day t1 = day t2)
        | _ \<Rightarrow> True) \<longrightarrow>
       build_attrs (e\<lparr>now := t1\<rparr>) DEAL_FIELDS_MAP r = build_attrs (e\<lparr>now := t2\<rparr>) DEAL_FIELDS_MAP r)
   \<and> (build_attrs e DEAL_FIELDS_MAP (PDict d) = Inr attrs \<and>
        \<not> py_truthy (dict_get d (u ''closedate'')) \<longrightarrow>
       dict_get attrs (u ''Close Date'') =
         PStr (str_of_nat (year (now e)) @ u ''-'' @ two_digits (month (now e)) @ u ''-'' @
               two_digits (day (now e)) @ u '' 00:00:00''))"
  using build_attrs_account_clock [where e = e and ?t1.0 = t1 and r = r and ?t2.0 = t2]
    build_attrs_contact_clock [where e = e and ?t1.0 = t1 and r = r and ?t2.0 = t2]
    build_attrs_deal_clock [where e = e and ?t1.0 = t1 and r = r and ?t2.0 = t2]
    build_attrs_deal_today [where e = e and d = d and attrs = attrs]
  by blast

lemmas deal_eval =
  build_attrs_def table_defs py_get_def transform_defs strftime_def two_digits_def
  dict_get_def opt_str_def DEALTYPE_MAP_def DEALSTAGE_MAP_def str_of_nat.simps

theorem build_attrs_clock_witness:
  "build_attrs
     (\<lparr>uni_alpha = (\<lambda>c. False),
        now = \<lparr>year = 2025, month = 12, day = 20, hour = 9, minute = 30, second = 15,
               microsecond = 0\<rparr>\<rparr>
      \<lparr>now := \<lparr>year = 2025, month = 12, day = 20, hour = 9, minute = 30, second = 15,
                microsecond = 0\<rparr>\<rparr>)
     DEAL_FIELDS_MAP
     (PDict [(u ''dealname'', PStr (u ''Renewal'')), (u ''dealstage'', PStr (u ''closedwon'')),
             (u ''closedate'', PStr (u ''2020-01-01T12:00:00Z''))])
   = build_attrs
     (\<lparr>uni_alpha = (\<lambda>c. False),
        now = \<lparr>year = 2025, month = 12, day = 20, hour = 9, minute = 30, second = 15,
               microsecond = 0\<rparr>\<rparr>
      \<lparr>now := \<lparr>year = 2026, month = 1, day = 5, hour = 0, minute = 0, second = 0,
                microsecond = 0\<rparr>\<rparr>)
     DEAL_FIELDS_MAP
     (PDict [(u ''dealname'', PStr (u ''Renewal'')), (u ''dealstage'', PStr (u ''closedwon'')),
             (u ''closedate'', PStr (u ''2020-01-01T12:00:00Z''))])"
proof -
  let ?r = "PDict [(u ''dealname'', PStr (u ''Renewal'')), (u ''dealstage'', PStr (u ''closedwon'')),
             (u ''closedate'', PStr (u ''2020-01-01T12:00:00Z''))]"
  let ?t1 = "\<lparr>year = 2025, month = 12, day = 20, hour = 9, minute = 30, second = 15,
                microsecond = 0\<rparr>"
  let ?t2 = "\<lparr>year = 2026, month = 1, day = 5, hour = 0, minute = 0, second = 0,
                microsecond = 0\<rparr>"
  have "case ?r of
          PDict d \<Rightarrow> py_truthy (dict_get d (u ''closedate'')) \<or>
                     (year ?t1 = year ?t2 \<and> month ?t1 = month ?t2 \<and> day ?t1 = day ?t2)
        | _ \<Rightarrow> True"
    by (simp add: dict_get_def)
  then show ?thesis
    using build_attrs_clock [where ?t1.0 = ?t1 and r = ?r and ?t2.0 = ?t2] by blast
qed

theorem build_attrs_deal_clock_counterexample:
  "build_attrs
     \<lparr>uni_alpha = (\<lambda>c. False),
       now = \<lparr>year = 2025, month = 12, day = 20, hour = 9, minute = 30, second = 15,
              microsecond = 0\<rparr>\<rparr>
     DEAL_FIELDS_MAP
     (PDict [(u ''dealname'', PStr (u ''Renewal'')), (u ''dealstage'', PStr (u ''closedwon''))])
   = Inr [(u ''company_id'', PNone), (u ''Name'', PStr (u ''Renewal'')), (u ''Type'', PNone),
          (u ''Stage'', PStr (u ''Closed Won'')), (u ''Amount'', PNone),
          (u ''Close Date'', PStr (u ''2025-12-20 00:00:00''))]
   \<and> build_attrs
     \<lparr>uni_alpha = (\<lambda>c. False),
       now = \<lparr>year = 2025, month = 12, day = 21, hour = 9, minute = 30, second = 15,
              microsecond = 0\<rparr>\<rparr>
     DEAL_FIELDS_MAP
     (PDict [(u ''dealname'', PStr (u ''Renewal'')), (u ''dealstage'', PStr (u ''closedwon''))])
   = Inr [(u ''company_id'', PNone), (u ''Name'', PStr (u ''Renewal'')), (u ''Type'', PNone),
          (u ''Stage'', PStr (u ''Closed Won'')), (u ''Amount'', PNone),
          (u ''Close Date'', PStr (u ''2025-12-21 00:00:00''))]
   \<and> build_attrs
     \<lparr>uni_alpha = (\<lambda>c. False),
       now = \<lparr>year = 2025, month = 12, day = 20, hour = 9, minute = 30, second = 15,
              microsecond = 0\<rparr>\<rparr>
     DEAL_FIELDS_MAP
     (PDict [(u ''dealname'', PStr (u ''Renewal'')), (u ''dealstage'', PStr (u ''closedwon''))])
   \<noteq> build_attrs
     \<lparr>uni_alpha = (\<lambda>c. False),
       now = \<lparr>year = 2025, month = 12, day = 21, hour = 9, minute = 30, second = 15,
              microsecond = 0\<rparr>\<rparr>
     DEAL_FIELDS_MAP
     (PDict [(u ''dealname'', PStr (u ''Renewal'')), (u ''dealstage'', PStr (u ''closedwon''))])"
  by (simp add: deal_eval u_def)

section \<open>Properties of the company store\<close>

lemma check_names_ok:
  "check_names names seen = Inr () \<longleftrightarrow>
     list_all hashable names \<and> distinct names \<and> set names \<inter> set seen = {}"
  by (induction names arbitrary: seen) auto

lemma check_names_strings_fail:
  "\<not> (distinct ss \<and> set (map PStr ss) \<inter> set seen = {}) \<Longrightarrow>
     \<exists>n pre post. ss = pre @ n # post \<and> (PStr n \<in> set seen \<or> n \<in> set pre) \<and>
       check_names (map PStr ss) seen =
         Inl (ValueError (u ''Duplicate names in list: '' @ [34] @ u ''{name}'' @ [34]) [PStr n])"
proof (induction ss arbitrary: seen)
  case Nil
  then show ?case by simp
next
  case (Cons s ss)
  show ?case
  proof (cases "PStr s \<in> set seen")
    case True
    then have "s # ss = [] @ s # ss \<and> (PStr s \<in> set seen \<or> s \<in> set []) \<and>
       check_names (map PStr (s # ss)) seen =
         Inl (ValueError (u ''Duplicate names in list: '' @ [34] @ u ''{name}'' @ [34]) [PStr s])"
      by simp
    then show ?thesis by blast
  next
    case False
    with Cons.prems have "\<not> (distinct ss \<and> set (map PStr ss) \<inter> set (PStr s # seen) = {})"
      by auto
    from Cons.IH [OF this] obtain n pre post where
      n: "ss = pre @ n # post" "PStr n \<in> set (PStr s # seen) \<or> n \<in> set pre"
        "check_names (map PStr ss) (PStr s # seen) =
           Inl (ValueError (u ''Duplicate names in list: '' @ [34] @ u ''{name}'' @ [34]) [PStr n])"
      by blast
    from n False have "s # ss = (s # pre) @ n # post \<and>
       (PStr n \<in> set seen \<or> n \<in> set (s # pre)) \<and>
       check_names (map PStr (s # ss)) seen =
         Inl (ValueError (u ''Duplicate names in list: '' @ [34] @ u ''{name}'' @ [34]) [PStr n])"
      by auto
    then show ?thesis by blast
  qed
qed

lemma sql_texts_strings: "sql_texts (map PStr ss) = Inr (map Some ss)"
  by (induction ss) (auto simp add: sql_text_def)

lemma fold_upd_map_of:
  "fold (\<lambda>(name, i) m. m(name \<mapsto> i)) ps m0 = m0 ++ map_of (rev ps)"
proof (induction ps arbitrary: m0)
  case Nil
  then show ?case by simp
next
  case (Cons p ps)
  obtain k v where p: "p = (k, v)" by (cases p)
  have "fold (\<lambda>(name, i) m. m(name \<mapsto> i)) (p # ps) m0 =
          fold (\<lambda>(name, i) m. m(name \<mapsto> i)) ps (m0(k \<mapsto> v))"
    using p by simp
  also have "\<dots> = m0(k \<mapsto> v) ++ map_of (rev ps)"
    by (rule Cons.IH)
  also have "\<dots> = m0 ++ map_of (rev (p # ps))"
    using p by (auto simp add: map_add_def fun_eq_iff split: option.splits)
  finally show ?case .
qed

lemma select_by_name_mem:
  "(n, i) \<in> set (select_by_name tbl ts) \<longleftrightarrow>
     (\<exists>r \<in> set tbl. col_name r = Some n \<and> col_id r = i \<and> Some n \<in> set ts \<and> \<not> col_duplicate r)"
  unfolding select_by_name_def
  by (induction tbl) (auto split: option.splits if_splits)

lemma select_by_name_fst:
  "n \<in> fst ` set (select_by_name tbl ts) \<longleftrightarrow>
     (\<exists>r \<in> set tbl. col_name r = Some n \<and> Some n \<in> set ts \<and> \<not> col_duplicate r)"
proof -
  have "n \<in> fst ` set (select_by_name tbl ts) \<longleftrightarrow> (\<exists>i. (n, i) \<in> set (select_by_name tbl ts))"
    by force
  then show ?thesis by (auto simp add: select_by_name_mem)
qed

lemma find_companies_by_name_nonempty:
  "names \<noteq> [] \<Longrightarrow>
     find_companies_by_name tbl (Some names) =
       (case check_names names [] of
          Inl err \<Rightarrow> Inl err
        | Inr _ \<Rightarrow>
            (case sql_texts names of
               Inl err \<Rightarrow> Inl err
             | Inr ts \<Rightarrow>
                 Inr (map (\<lambda>n. case n of
                                  PStr s \<Rightarrow> opt_str (map_of (rev (select_by_name tbl ts)) s)
                                | _ \<Rightarrow> PNone) names)))"
  by (cases names)
     (simp_all add: find_companies_by_name_def fold_upd_map_of Let_def
        del: check_names.simps sql_texts.simps split: sum.splits)

lemma find_companies_by_name_strings:
  assumes "ss \<noteq> []" and "distinct ss"
  shows "find_companies_by_name tbl (Some (map PStr ss)) =
           Inr (map (\<lambda>s. opt_str (map_of (rev (select_by_name tbl (map Some ss))) s)) ss)"
proof -
  have "check_names (map PStr ss) [] = Inr ()"
    using assms by (simp add: check_names_ok list_all_iff distinct_map inj_on_def)
  moreover have "map PStr ss \<noteq> []" using assms(1) by simp
  ultimately show ?thesis
    by (simp add: find_companies_by_name_nonempty sql_texts_strings o_def)
qed


lemma find_companies_by_name_aligned:
  fixes tbl :: companies
  assumes "ss \<noteq> []" and "distinct ss" and "i < length ss"
  defines "ids \<equiv> map (\<lambda>s. opt_str (map_of (rev (select_by_name tbl (map Some ss))) s)) ss"
  shows "(\<exists>r \<in> set tbl. ids ! i = PStr (col_id r) \<and> col_name r = Some (ss ! i) \<and> \<not> col_duplicate r)
         \<or> (ids ! i = PNone \<and> \<not> (\<exists>r \<in> set tbl. col_name r = Some (ss ! i) \<and> \<not> col_duplicate r))"
proof (cases "map_of (rev (select_by_name tbl (map Some ss))) (ss ! i)")
  case None
  then have "ss ! i \<notin> fst ` set (select_by_name tbl (map Some ss))"
    by (simp add: map_of_eq_None_iff)
  moreover have "Some (ss ! i) \<in> set (map Some ss)" using assms(3) by simp
  ultimately have "\<not> (\<exists>r \<in> set tbl. col_name r = Some (ss ! i) \<and> \<not> col_duplicate r)"
    unfolding select_by_name_fst by blast
  moreover have "ids ! i = PNone" using None assms(3) by (simp add: ids_def opt_str_def)
  ultimately show ?thesis by blast
next
  case (Some cid)
  then have "(ss ! i, cid) \<in> set (select_by_name tbl (map Some ss))"
    using map_of_SomeD by fastforce
  then obtain r where "r \<in> set tbl" "col_name r = Some (ss ! i)" "col_id r = cid"
    "\<not> col_duplicate r"
    unfolding select_by_name_mem by blast
  moreover have "ids ! i = PStr cid" using Some assms(3) by (simp add: ids_def opt_str_def)
  ultimately show ?thesis by blast
qed

text \<open>
  Claim C7. \<open>find_companies_by_name\<close> fails for a name list that is \<open>None\<close> or empty, and
  for a list of names in which a name occurs twice. For a non-empty list of different
  names, each a string that UTF-8 encodes, it returns a list of the same length in which
  position \<open>i\<close> holds the id of a company of the table whose name is the \<open>i\<close>-th name and
  whose \<open>duplicate\<close> is false, or \<open>None\<close> when the table has no such company; a company
  flagged duplicate is never returned.
\<close>

theorem find_companies_by_name_spec:
  "find_companies_by_name tbl None = Inl (ValueError (u ''No names list provided'') [])
   \<and> find_companies_by_name tbl (Some []) = Inl (ValueError (u ''No names list provided'') [])
   \<and> (\<not> distinct ss \<longrightarrow>
        (\<exists>n pre post. ss = pre @ n # post \<and> n \<in> set pre \<and>
           find_companies_by_name tbl (Some (map PStr ss)) =
             Inl (ValueError (u ''Duplicate names in list: '' @ [34] @ u ''{name}'' @ [34])
                    [PStr n])))
   \<and> (ss \<noteq> [] \<and> distinct ss \<and> list_all utf8_encodable ss \<longrightarrow>
        (\<exists>ids. find_companies_by_name tbl (Some (map PStr ss)) = Inr ids \<and>
           length ids = length ss \<and>
           (\<forall>i < length ss.
              (\<exists>r \<in> set tbl. ids ! i = PStr (col_id r) \<and> col_name r = Some (ss ! i) \<and>
                  \<not> col_duplicate r)
              \<or> (ids ! i = PNone \<and>
                  \<not> (\<exists>r \<in> set tbl. col_name r = Some (ss ! i) \<and> \<not> col_duplicate r)))))"
proof (intro conjI impI)
  show "find_companies_by_name tbl None = Inl (ValueError (u ''No names list provided'') [])"
    by (simp add: find_companies_by_name_def)
  show "find_companies_by_name tbl (Some []) = Inl (ValueError (u ''No names list provided'') [])"
    by (simp add: find_companies_by_name_def)
next
  assume nd: "\<not> distinct ss"
  then have "\<not> (distinct ss \<and> set (map PStr ss) \<inter> set [] = {})" by simp
  from check_names_strings_fail [OF this] obtain n pre post where
    n: "ss = pre @ n # post" "n \<in> set pre"
      "check_names (map PStr ss) [] =
         Inl (ValueError (u ''Duplicate names in list: '' @ [34] @ u ''{name}'' @ [34]) [PStr n])"
    by auto
  from nd have "map PStr ss \<noteq> []" by auto
  with n(3) have "find_companies_by_name tbl (Some (map PStr ss)) =
      Inl (ValueError (u ''Duplicate names in list: '' @ [34] @ u ''{name}'' @ [34]) [PStr n])"
    by (simp add: find_companies_by_name_nonempty)
  with n(1,2) show "\<exists>n pre post. ss = pre @ n # post \<and> n \<in> set pre \<and>
           find_companies_by_name tbl (Some (map PStr ss)) =
             Inl (ValueError (u ''Duplicate names in list: '' @ [34] @ u ''{name}'' @ [34])
                    [PStr n])"
    by blast
next
  assume a: "ss \<noteq> [] \<and> distinct ss \<and> list_all utf8_encodable ss"
  let ?ids = "map (\<lambda>s. opt_str (map_of (rev (select_by_name tbl (map Some ss))) s)) ss"
  have "find_companies_by_name tbl (Some (map PStr ss)) = Inr ?ids"
    using a by (simp add: find_companies_by_name_strings)
  moreover have "length ?ids = length ss" by simp
  moreover have "\<forall>i < length ss.
              (\<exists>r \<in> set tbl. ?ids ! i = PStr (col_id r) \<and> col_name r = Some (ss ! i) \<and>
                  \<not> col_duplicate r)
              \<or> (?ids ! i = PNone \<and>
                  \<not> (\<exists>r \<in> set tbl. col_name r = Some (ss ! i) \<and> \<not> col_duplicate r))"
    using a find_companies_by_name_aligned [of ss _ tbl] by blast
  ultimately show "\<exists>ids. find_companies_by_name tbl (Some (map PStr ss)) = Inr ids \<and>
           length ids = length ss \<and>
           (\<forall>i < length ss.
              (\<exists>r \<in> set tbl. ids ! i = PStr (col_id r) \<and> col_name r = Some (ss ! i) \<and>
                  \<not> col_duplicate r)
              \<or> (ids ! i = PNone \<and>
                  \<not> (\<exists>r \<in> set tbl. col_name r = Some (ss ! i) \<and> \<not> col_duplicate r)))"
    by blast
qed

theorem find_companies_by_name_spec_witness:
  "find_companies_by_name
     [\<lparr>col_id = u ''id1'', col_attrs = [(u ''param1'', PStr (u ''value1''))],
       col_name = Some (u ''Test Company''), col_duplicate = False\<rparr>,
      \<lparr>col_id = u ''id2'', col_attrs = [(u ''param1'', PStr (u ''value1''))],
       col_name = Some (u ''Test Company''), col_duplicate = True\<rparr>]
     (Some (map PStr [u ''nonexisting company'', u ''Test Company'']))
   = Inr [PNone, PStr (u ''id1'')]
   \<and> distinct [u ''nonexisting company'', u ''Test Company'']
   \<and> list_all utf8_encodable [u ''nonexisting company'', u ''Test Company'']
   \<and> (\<exists>n. find_companies_by_name
     [\<lparr>col_id = u ''id1'', col_attrs = [(u ''param1'', PStr (u ''value1''))],
       col_name = Some (u ''Test Company''), col_duplicate = False\<rparr>,
      \<lparr>col_id = u ''id2'', col_attrs = [(u ''param1'', PStr (u ''value1''))],
       col_name = Some (u ''Test Company''), col_duplicate = True\<rparr>]
     (Some (map PStr [u ''comp0'', u ''comp1'', u ''comp1'']))
   = Inl (ValueError (u ''Duplicate names in list: '' @ [34] @ u ''{name}'' @ [34]) [PStr n]))"
proof -
  let ?tbl = "[\<lparr>col_id = u ''id1'', col_attrs = [(u ''param1'', PStr (u ''value1''))],
       col_name = Some (u ''Test Company''), col_duplicate = False\<rparr>,
      \<lparr>col_id = u ''id2'', col_attrs = [(u ''param1'', PStr (u ''value1''))],
       col_name = Some (u ''Test Company''), col_duplicate = True\<rparr>]"
  have "\<not> distinct [u ''comp0'', u ''comp1'', u ''comp1'']" by simp
  then have 1: "\<exists>n. find_companies_by_name ?tbl
        (Some (map PStr [u ''comp0'', u ''comp1'', u ''comp1''])) =
      Inl (ValueError (u ''Duplicate names in list: '' @ [34] @ u ''{name}'' @ [34]) [PStr n])"
    using find_companies_by_name_spec [of ?tbl "[u ''comp0'', u ''comp1'', u ''comp1'']"]
    by blast
  have 2: "find_companies_by_name ?tbl
        (Some (map PStr [u ''nonexisting company'', u ''Test Company''])) =
      Inr [PNone, PStr (u ''id1'')]"
    by (simp add: find_companies_by_name_def select_by_name_def sql_text_def opt_str_def)
  have 3: "distinct [u ''nonexisting company'', u ''Test Company'']"
    "list_all utf8_encodable [u ''nonexisting company'', u ''Test Company'']"
    by (simp_all add: utf8_encodable_def u_def)
  then have "\<exists>ids. find_companies_by_name ?tbl
        (Some (map PStr [u ''nonexisting company'', u ''Test Company''])) = Inr ids \<and>
      length ids = length [u ''nonexisting company'', u ''Test Company'']"
    using find_companies_by_name_spec [of ?tbl "[u ''nonexisting company'', u ''Test Company'']"]
    by blast
  with 1 2 3 show ?thesis by blast
qed

section \<open>Properties of the CSV builder\<close>

lemmas filename_defs =
  contacts_filename_def deals_filename_def companies_filename_def
  csv_accounts_contacts_filename_def csv_errors_accounts_contacts_filename_def
  csv_opportunities_filename_def csv_errors_opportunities_filename_def

text \<open>
  Claim C3, as amended. \<open>build_sf_csvs\<close> checks the three intermediate files first, in the
  order contacts, deals, companies, and fails at the first one that is absent, before
  anything is read or written: the message names that file and no other. When all three
  are present the check passes.
\<close>

theorem build_sf_csvs_missing_file:
  "(fs contacts_filename = None \<longrightarrow>
      build_sf_csvs fs = (fs, Inl (ValueError (u ''No contacts.parquet file found'') [])))
   \<and> (fs contacts_filename \<noteq> None \<and> fs deals_filename = None \<longrightarrow>
      build_sf_csvs fs = (fs, Inl (ValueError (u ''No deals.parquet file found'') [])))
   \<and> (fs contacts_filename \<noteq> None \<and> fs deals_filename \<noteq> None \<and> fs companies_filename = None \<longrightarrow>
      build_sf_csvs fs = (fs, Inl (ValueError (u ''No companies.sqlite file found'') [])))
   \<and> (fs contacts_filename \<noteq> None \<and> fs deals_filename \<noteq> None \<and> fs companies_filename \<noteq> None \<longrightarrow>
      check_files fs [contacts_filename, deals_filename, companies_filename] = Inr ())"
  by (auto simp add: build_sf_csvs_def filename_defs u_def)

theorem build_sf_csvs_missing_file_witness:
  "build_sf_csvs [contacts_filename \<mapsto> Parquet []] =
     ([contacts_filename \<mapsto> Parquet []],
      Inl (ValueError (u ''No deals.parquet file found'') []))"
proof -
  have "[contacts_filename \<mapsto> Parquet []] contacts_filename \<noteq> None \<and>
        [contacts_filename \<mapsto> Parquet []] deals_filename = None"
    by (simp add: filename_defs)
  then show ?thesis
    using build_sf_csvs_missing_file [of "[contacts_filename \<mapsto> Parquet []]"] by blast
qed

theorem build_sf_csvs_missing_files_counterexample:
  "build_sf_csvs Map.empty =
     (Map.empty, Inl (ValueError (u ''No contacts.parquet file found'') []))
   \<and> \<not> py_in deals_filename (u ''No contacts.parquet file found'')
   \<and> \<not> py_in companies_filename (u ''No contacts.parquet file found'')"
  by (simp add: build_sf_csvs_def filename_defs u_def)

subsection \<open>The diagnostics\<close>

lemmas msg_eval =
  build_missing_field_error_def MISSING_VALUE_def hubspot_api_contacts_path_def
  hubspot_api_deals_path_def hubspot_api_companies_path_def u_def








subsection \<open>The join of one row\<close>





lemma falsy_contact_company_id:
  "\<not> py_truthy (dict_get row COMPANY_ID_COLUMN) \<Longrightarrow>
     first_missing_field CONTACT_FIELDS_MAP row =
       Some (u ''associations_companies_results'', u ''company_id'')"
  by (simp add: table_defs)

lemma falsy_deal_company_id:
  "\<not> py_truthy (dict_get row COMPANY_ID_COLUMN) \<Longrightarrow>
     first_missing_field DEAL_FIELDS_MAP row =
       Some (u ''associations_companies_results'', u ''company_id'')"
  by (simp add: table_defs)






subsection \<open>Routing\<close>












lemmas join_eval =
  join_contact_def join_deal_def table_defs dict_get_def dict_getitem_def dict_pop_def
  get_company_def sql_text_def dict_update_def normalize_csv_empty_values_def msg_eval
  error_set_def write_joined_def writerow_def ERROR_COLUMN_def DUPLICATE_COMPANY_def
  OPPORTUNITIES_ACCOUNT_NAME_COLUMN_def opt_str_def Let_def


subsection \<open>A parent id that the store does not know\<close>

lemma get_company_unknown:
  assumes "cid \<noteq> []" and "cid \<notin> set (map col_id engine)"
  shows "get_company engine (PStr cid) = Inl (ValueError (u ''Company not found'') [])"
proof -
  have "find (\<lambda>r. Some (col_id r) = Some cid) engine = None"
    using assms(2) by (auto simp add: find_None_iff)
  with assms(1) show ?thesis by (simp add: get_company_def sql_text_def)
qed

lemma map_of_dict_pop:
  "map_of row k = Some v \<Longrightarrow> dict_pop row k = Inr (v, filter (\<lambda>(k', _). k' \<noteq> k) row)"
  by (simp add: dict_pop_def)

lemma join_contact_unknown:
  assumes "map_of row COMPANY_ID_COLUMN = Some (PStr cid)" and "cid \<noteq> []"
    and "cid \<notin> set (map col_id engine)"
  shows "join_contact engine row = Inl (ValueError (u ''Company not found'') [])"
  using assms(2) get_company_unknown [OF assms(2,3)]
  by (simp add: join_contact_def map_of_dict_pop [OF assms(1)] Let_def)

lemma join_deal_unknown:
  assumes "map_of row COMPANY_ID_COLUMN = Some (PStr cid)" and "cid \<noteq> []"
    and "cid \<notin> set (map col_id engine)"
  shows "join_deal engine row = Inl (ValueError (u ''Company not found'') [])"
  using assms(2) get_company_unknown [OF assms(2,3)]
  by (simp add: join_deal_def map_of_dict_pop [OF assms(1)] Let_def)

lemma join_contact_falsy:
  assumes "map_of row COMPANY_ID_COLUMN = Some v" and "\<not> py_truthy v"
  shows "join_contact engine row =
           Inr (normalize_csv_empty_values (filter (\<lambda>(k, _). k \<noteq> COMPANY_ID_COLUMN) row),
                Some (u ''Missing value /crm/objects/v3/contacts associations_companies_results (company_id)''))"
proof -
  have "dict_get row COMPANY_ID_COLUMN = v" using assms(1) by (simp add: dict_get_def)
  with assms(2) have "first_missing_field CONTACT_FIELDS_MAP row =
       Some (u ''associations_companies_results'', u ''company_id'')"
    by (simp add: falsy_contact_company_id)
  with assms(2) show ?thesis
    by (simp add: join_contact_def map_of_dict_pop [OF assms(1)] Let_def msg_eval)
qed

lemma join_deal_falsy:
  assumes "map_of row COMPANY_ID_COLUMN = Some v" and "\<not> py_truthy v"
  shows "join_deal engine row =
           Inr (normalize_csv_empty_values (filter (\<lambda>(k, _). k \<noteq> COMPANY_ID_COLUMN) row),
                Some (u ''Missing value /crm/objects/v3/deals associations_companies_results (company_id)''))"
proof -
  have "dict_get row COMPANY_ID_COLUMN = v" using assms(1) by (simp add: dict_get_def)
  with assms(2) have "first_missing_field DEAL_FIELDS_MAP row =
       Some (u ''associations_companies_results'', u ''company_id'')"
    by (simp add: falsy_deal_company_id)
  with assms(2) show ?thesis
    by (simp add: join_deal_def map_of_dict_pop [OF assms(1)] Let_def msg_eval)
qed

lemma join_rows_abort:
  assumes "join_rows j fn efn pre st = (st1, None)" and "j row = Inl err"
  shows "join_rows j fn efn (pre @ row # post) st = (st1, Some err)"
  using assms
proof (induction pre arbitrary: st)
  case Nil
  then show ?case by simp
next
  case (Cons r pre)
  then show ?case by (auto split: sum.splits)
qed

lemma write_csvs_Inr:
  assumes "snd (write_csvs j fn efn rows fs op ep) = Inr stats"
  shows "\<exists>st. join_rows j fn efn rows
                \<lparr>output_csv = [map PStr fn], errors_csv = [map PStr efn],
                 total_rows = 0, error_rows = 0\<rparr> = (st, None)"
  using assms
  by (auto simp add: write_csvs_def Let_def split: prod.splits option.splits if_splits)

lemma write_csvs_abort:
  assumes "snd (write_csvs j fn efn pre fs op ep) = Inr stats" and "j row = Inl err"
  shows "snd (write_csvs j fn efn (pre @ row # post) fs' op ep) = Inl err"
proof -
  from write_csvs_Inr [OF assms(1)] obtain st where
    "join_rows j fn efn pre
       \<lparr>output_csv = [map PStr fn], errors_csv = [map PStr efn],
        total_rows = 0, error_rows = 0\<rparr> = (st, None)"
    by blast
  from join_rows_abort [OF this assms(2)] show ?thesis
    by (simp add: write_csvs_def Let_def)
qed

lemma build_accounts_contacts_abort:
  assumes "snd (build_accounts_contacts engine (fs(p \<mapsto> Parquet pre)) p op ep) = Inr stats"
    and "join_contact engine row = Inl err"
  shows "snd (build_accounts_contacts engine (fs(p \<mapsto> Parquet (pre @ row # post))) p op ep) = Inl err"
  using assms
  by (simp add: build_accounts_contacts_def read_parquet_def Let_def write_csvs_abort)

lemma build_opportunities_abort:
  assumes "snd (build_opportunities engine (fs(p \<mapsto> Parquet pre)) p op ep) = Inr stats"
    and "join_deal engine row = Inl err"
  shows "snd (build_opportunities engine (fs(p \<mapsto> Parquet (pre @ row # post))) p op ep) = Inl err"
  using assms
  by (simp add: build_opportunities_def read_parquet_def Let_def write_csvs_abort)


text \<open>
  Claim C9. A child row whose parent-id column holds a non-empty id that no company of the
  store has makes \<open>get_company\<close> raise \<open>Company not found\<close>: the join of the row raises,
  and so does the whole pass as soon as the rows before it have been processed, instead of
  writing the row to the error file. Only a falsy parent id is recovered: the row then
  gets the \<open>Missing value\<close> diagnostic of the parent-id column.
\<close>

theorem unknown_parent_is_fatal:
  "(map_of row COMPANY_ID_COLUMN = Some (PStr cid) \<and> cid \<noteq> [] \<and>
    cid \<notin> set (map col_id engine) \<longrightarrow>
      join_contact engine row = Inl (ValueError (u ''Company not found'') []) \<and>
      join_deal engine row = Inl (ValueError (u ''Company not found'') []) \<and>
      (snd (build_accounts_contacts engine (fs(p \<mapsto> Parquet pre)) p op ep) = Inr stats \<longrightarrow>
         snd (build_accounts_contacts engine (fs(p \<mapsto> Parquet (pre @ row # post))) p op ep) =
           Inl (ValueError (u ''Company not found'') [])) \<and>
      (snd (build_opportunities engine (fs(p \<mapsto> Parquet pre)) p op ep) = Inr stats \<longrightarrow>
         snd (build_opportunities engine (fs(p \<mapsto> Parquet (pre @ row # post))) p op ep) =
           Inl (ValueError (u ''Company not found'') [])))
   \<and> (map_of row COMPANY_ID_COLUMN = Some v \<and> \<not> py_truthy v \<longrightarrow>
      join_contact engine row =
        Inr (normalize_csv_empty_values (filter (\<lambda>(k, _). k \<noteq> COMPANY_ID_COLUMN) row),
             Some (u ''Missing value /crm/objects/v3/contacts associations_companies_results (company_id)'')) \<and>
      join_deal engine row =
        Inr (normalize_csv_empty_values (filter (\<lambda>(k, _). k \<noteq> COMPANY_ID_COLUMN) row),
             Some (u ''Missing value /crm/objects/v3/deals associations_companies_results (company_id)'')))"
proof (intro conjI impI)
  assume h: "map_of row COMPANY_ID_COLUMN = Some (PStr cid) \<and> cid \<noteq> [] \<and>
    cid \<notin> set (map col_id engine)"
  then show c: "join_contact engine row = Inl (ValueError (u ''Company not found'') [])"
    using join_contact_unknown by blast
  from h show d: "join_deal engine row = Inl (ValueError (u ''Company not found'') [])"
    using join_deal_unknown by blast
  {
    assume "snd (build_accounts_contacts engine (fs(p \<mapsto> Parquet pre)) p op ep) = Inr stats"
    from build_accounts_contacts_abort [OF this c]
    show "snd (build_accounts_contacts engine (fs(p \<mapsto> Parquet (pre @ row # post))) p op ep) =
           Inl (ValueError (u ''Company not found'') [])" .
  }
  {
    assume "snd (build_opportunities engine (fs(p \<mapsto> Parquet pre)) p op ep) = Inr stats"
    from build_opportunities_abort [OF this d]
    show "snd (build_opportunities engine (fs(p \<mapsto> Parquet (pre @ row # post))) p op ep) =
           Inl (ValueError (u ''Company not found'') [])" .
  }
next
  assume h: "map_of row COMPANY_ID_COLUMN = Some v \<and> \<not> py_truthy v"
  then show "join_contact engine row =
        Inr (normalize_csv_empty_values (filter (\<lambda>(k, _). k \<noteq> COMPANY_ID_COLUMN) row),
             Some (u ''Missing value /crm/objects/v3/contacts associations_companies_results (company_id)''))"
    using join_contact_falsy by blast
  from h show "join_deal engine row =
        Inr (normalize_csv_empty_values (filter (\<lambda>(k, _). k \<noteq> COMPANY_ID_COLUMN) row),
             Some (u ''Missing value /crm/objects/v3/deals associations_companies_results (company_id)''))"
    using join_deal_falsy by blast
qed

theorem unknown_parent_is_fatal_witness:
  "snd (build_accounts_contacts
          [\<lparr>col_id = u ''c1'', col_attrs = [(u ''Account Name'', PStr (u ''Acme''))],
            col_name = Some (u ''Acme''), col_duplicate = False\<rparr>]
          (Map.empty(contacts_filename \<mapsto>
             Parquet ([] @ [(u ''company_id'', PStr (u ''c2'')),
                            (u ''Contact First Name'', PStr (u ''Ann'')),
                            (u ''Contact Last Name'', PStr (u ''Doe''))] # [])))
          contacts_filename csv_accounts_contacts_filename csv_errors_accounts_contacts_filename)
   = Inl (ValueError (u ''Company not found'') [])
   \<and> join_deal
       [\<lparr>col_id = u ''c1'', col_attrs = [(u ''Account Name'', PStr (u ''Acme''))],
         col_name = Some (u ''Acme''), col_duplicate = False\<rparr>]
       [(u ''company_id'', PStr []), (u ''Name'', PStr (u ''Renewal''))]
     = Inr (normalize_csv_empty_values
              (filter (\<lambda>(k, _). k \<noteq> COMPANY_ID_COLUMN)
                 [(u ''company_id'', PStr []), (u ''Name'', PStr (u ''Renewal''))]),
            Some (u ''Missing value /crm/objects/v3/deals associations_companies_results (company_id)''))"
proof -
  let ?engine = "[\<lparr>col_id = u ''c1'', col_attrs = [(u ''Account Name'', PStr (u ''Acme''))],
            col_name = Some (u ''Acme''), col_duplicate = False\<rparr>]"
  let ?row = "[(u ''company_id'', PStr (u ''c2'')),
                            (u ''Contact First Name'', PStr (u ''Ann'')),
                            (u ''Contact Last Name'', PStr (u ''Doe''))]"
  let ?deal = "[(u ''company_id'', PStr []), (u ''Name'', PStr (u ''Renewal''))]"
  have h: "map_of ?row COMPANY_ID_COLUMN = Some (PStr (u ''c2'')) \<and> u ''c2'' \<noteq> [] \<and>
      u ''c2'' \<notin> set (map col_id ?engine)"
    by (simp add: COMPANY_ID_COLUMN_def)
  have pre: "snd (build_accounts_contacts ?engine (Map.empty(contacts_filename \<mapsto> Parquet []))
          contacts_filename csv_accounts_contacts_filename csv_errors_accounts_contacts_filename)
        = Inr (0, 0)"
    by (simp add: build_accounts_contacts_def read_parquet_def write_csvs_def Let_def)
  have 1: "snd (build_accounts_contacts ?engine
          (Map.empty(contacts_filename \<mapsto> Parquet ([] @ ?row # [])))
          contacts_filename csv_accounts_contacts_filename csv_errors_accounts_contacts_filename)
        = Inl (ValueError (u ''Company not found'') [])"
    using h pre
      unknown_parent_is_fatal [where row = ?row and cid = "u ''c2''" and engine = ?engine
        and fs = Map.empty and p = contacts_filename and pre = "[]" and post = "[]"
        and op = csv_accounts_contacts_filename and ep = csv_errors_accounts_contacts_filename
        and stats = "(0, 0)"]
    by blast
  have f: "map_of ?deal COMPANY_ID_COLUMN = Some (PStr []) \<and> \<not> py_truthy (PStr [])"
    by (simp add: COMPANY_ID_COLUMN_def)
  have 2: "join_deal ?engine ?deal
     = Inr (normalize_csv_empty_values (filter (\<lambda>(k, _). k \<noteq> COMPANY_ID_COLUMN) ?deal),
            Some (u ''Missing value /crm/objects/v3/deals associations_companies_results (company_id)''))"
    using f unknown_parent_is_fatal [where row = ?deal and v = "PStr []" and engine = ?engine]
    by blast
  from 1 2 show ?thesis by blast
qed

subsection \<open>The files after a pass\<close>

lemma error_set_iff: "error_set e \<longleftrightarrow> (\<exists>msg. e = Some msg \<and> msg \<noteq> [])"
  by (cases e) (auto simp add: error_set_def)

lemma write_joined_step:
  assumes "write_joined fn efn st (out, e) = Inr st'"
  shows "total_rows st' = total_rows st + 1 \<and>
         error_rows st' = error_rows st + (if error_set e then 1 else 0) \<and>
         (\<exists>ls. output_csv st' = output_csv st @ ls) \<and>
         (\<exists>ls. errors_csv st' = errors_csv st @ ls \<and>
               length ls = (if error_set e then 1 else 0))"
  using assms
  by (auto simp add: write_joined_def split: sum.splits if_splits)

lemma join_rows_counts:
  assumes "join_rows j fn efn rows st = (st', None)"
  shows "total_rows st' = total_rows st + length rows \<and>
         error_rows st' = error_rows st +
           length (filter (\<lambda>row. case j row of Inl _ \<Rightarrow> False | Inr (out, e) \<Rightarrow> error_set e) rows) \<and>
         (\<exists>ls. output_csv st' = output_csv st @ ls) \<and>
         (\<exists>ls. errors_csv st' = errors_csv st @ ls \<and>
               length ls =
                 length (filter (\<lambda>row. case j row of Inl _ \<Rightarrow> False | Inr (out, e) \<Rightarrow> error_set e) rows))"
  using assms
proof (induction rows arbitrary: st)
  case Nil
  then show ?case by simp
next
  case (Cons row rows)
  from Cons.prems obtain out e where j: "j row = Inr (out, e)"
    by (cases "j row") (auto split: sum.splits)
  from Cons.prems j obtain st1 where w: "write_joined fn efn st (out, e) = Inr st1"
    and rest: "join_rows j fn efn rows st1 = (st', None)"
    by (cases "write_joined fn efn st (out, e)") auto
  from write_joined_step [OF w] obtain l1 l2 where s1:
    "total_rows st1 = total_rows st + 1"
    "error_rows st1 = error_rows st + (if error_set e then 1 else 0)"
    "output_csv st1 = output_csv st @ l1"
    "errors_csv st1 = errors_csv st @ l2"
    "length l2 = (if error_set e then 1 else 0)"
    by blast
  from Cons.IH [OF rest] obtain m1 m2 where s2:
    "total_rows st' = total_rows st1 + length rows"
    "error_rows st' = error_rows st1 +
       length (filter (\<lambda>row. case j row of Inl _ \<Rightarrow> False | Inr (out, e) \<Rightarrow> error_set e) rows)"
    "output_csv st' = output_csv st1 @ m1"
    "errors_csv st' = errors_csv st1 @ m2"
    "length m2 =
       length (filter (\<lambda>row. case j row of Inl _ \<Rightarrow> False | Inr (out, e) \<Rightarrow> error_set e) rows)"
    by blast
  have "output_csv st' = output_csv st @ (l1 @ m1)" using s1 s2 by simp
  moreover have "errors_csv st' = errors_csv st @ (l2 @ m2) \<and>
      length (l2 @ m2) =
        length (filter (\<lambda>row. case j row of Inl _ \<Rightarrow> False | Inr (out, e) \<Rightarrow> error_set e) (row # rows))"
    using s1 s2 j by simp
  moreover have "total_rows st' = total_rows st + length (row # rows)" using s1 s2 by simp
  moreover have "error_rows st' = error_rows st +
      length (filter (\<lambda>row. case j row of Inl _ \<Rightarrow> False | Inr (out, e) \<Rightarrow> error_set e) (row # rows))"
    using s1 s2 j by simp
  ultimately show ?case by blast
qed

lemma diagnosed_rows:
  "length (filter (\<lambda>row. case j row of Inl _ \<Rightarrow> False | Inr (out, e) \<Rightarrow> error_set e) rows) \<noteq> 0 \<longleftrightarrow>
     (\<exists>row \<in> set rows. \<exists>out msg. j row = Inr (out, Some msg) \<and> msg \<noteq> [])"
proof -
  have "length (filter (\<lambda>row. case j row of Inl _ \<Rightarrow> False | Inr (out, e) \<Rightarrow> error_set e) rows) \<noteq> 0 \<longleftrightarrow>
      (\<exists>row \<in> set rows. case j row of Inl _ \<Rightarrow> False | Inr (out, e) \<Rightarrow> error_set e)"
    by (simp add: filter_empty_conv)
  also have "\<dots> \<longleftrightarrow> (\<exists>row \<in> set rows. \<exists>out msg. j row = Inr (out, Some msg) \<and> msg \<noteq> [])"
  proof -
    have "(case j row of Inl _ \<Rightarrow> False | Inr (out, e) \<Rightarrow> error_set e) \<longleftrightarrow>
        (\<exists>out msg. j row = Inr (out, Some msg) \<and> msg \<noteq> [])" for row
    proof (cases "j row")
      case (Inl err)
      then show ?thesis by simp
    next
      case (Inr r)
      obtain out e where "r = (out, e)" by (cases r)
      with Inr show ?thesis by (simp add: error_set_iff)
    qed
    then show ?thesis by simp
  qed
  finally show ?thesis .
qed

lemma write_csvs_closed:
  assumes "write_csvs j fn efn rows fs op ep = (fs', Inr (tot, errs))" and "op \<noteq> ep"
  shows "tot = length rows \<and>
         (fs' ep \<noteq> None \<longleftrightarrow>
            (\<exists>row \<in> set rows. \<exists>out msg. j row = Inr (out, Some msg) \<and> msg \<noteq> [])) \<and>
         (errs \<noteq> 0 \<longleftrightarrow>
            (\<exists>row \<in> set rows. \<exists>out msg. j row = Inr (out, Some msg) \<and> msg \<noteq> [])) \<and>
         (\<exists>ls. fs' op = Some (Csv (map PStr fn # ls))) \<and>
         (fs' ep \<noteq> None \<longrightarrow> (\<exists>ls. fs' ep = Some (Csv (map PStr efn # ls)) \<and> length ls = errs))"
proof -
  let ?st0 = "\<lparr>output_csv = [map PStr fn], errors_csv = [map PStr efn],
               total_rows = 0, error_rows = 0\<rparr>"
  obtain st raised where jr: "join_rows j fn efn rows ?st0 = (st, raised)"
    by (cases "join_rows j fn efn rows ?st0")
  with assms(1) have none: "raised = None"
    by (auto simp add: write_csvs_def Let_def split: option.splits if_splits)
  from assms(1) jr none have res:
    "tot = total_rows st" "errs = error_rows st"
    "fs' = (if 0 = error_rows st
            then (fs(op \<mapsto> Csv (output_csv st), ep \<mapsto> Csv (errors_csv st)))(ep := None)
            else fs(op \<mapsto> Csv (output_csv st), ep \<mapsto> Csv (errors_csv st)))"
    by (auto simp add: write_csvs_def Let_def split: if_splits)
  from join_rows_counts [OF jr [unfolded none]] obtain l1 l2 where c:
    "total_rows st = length rows"
    "error_rows st =
       length (filter (\<lambda>row. case j row of Inl _ \<Rightarrow> False | Inr (out, e) \<Rightarrow> error_set e) rows)"
    "output_csv st = [map PStr fn] @ l1"
    "errors_csv st = [map PStr efn] @ l2"
    "length l2 =
       length (filter (\<lambda>row. case j row of Inl _ \<Rightarrow> False | Inr (out, e) \<Rightarrow> error_set e) rows)"
    by auto
  have d: "error_rows st \<noteq> 0 \<longleftrightarrow>
      (\<exists>row \<in> set rows. \<exists>out msg. j row = Inr (out, Some msg) \<and> msg \<noteq> [])"
    using c(2) diagnosed_rows [of j rows] by simp
  have e1: "fs' ep \<noteq> None \<longleftrightarrow> error_rows st \<noteq> 0"
    using res(3) by auto
  have e2: "fs' op = Some (Csv (map PStr fn # l1))"
    using res(3) c(3) assms(2) by auto
  have e3: "fs' ep \<noteq> None \<longrightarrow> fs' ep = Some (Csv (map PStr efn # l2)) \<and> length l2 = errs"
    using res(2,3) c(2,4,5) by auto
  from res(1,2) c(1) d e1 e2 e3 show ?thesis by blast
qed


text \<open>
  Claim C8. When a pass returns its counters, that is, when it has closed both files
  without an exception, the error file exists exactly when some row of the input received
  a diagnostic; it then holds its header and one line for each such row, and otherwise it
  has been deleted. The file of valid rows exists in either case and starts with its
  header.
\<close>

theorem error_file_iff_diagnostic:
  "(build_accounts_contacts engine fs cp op ep = (fs', Inr (tot, errs)) \<and> op \<noteq> ep \<and>
    fs cp = Some (Parquet rows) \<longrightarrow>
      (fs' ep \<noteq> None \<longleftrightarrow>
         (\<exists>row \<in> set rows. \<exists>out msg. join_contact engine row = Inr (out, Some msg) \<and> msg \<noteq> [])) \<and>
      (fs' ep \<noteq> None \<longrightarrow>
         (\<exists>ls. fs' ep =
                 Some (Csv (map PStr (ERROR_COLUMN # (map fst ACCOUNT_FIELDS_MAP @
                                        remove1 COMPANY_ID_COLUMN (map fst CONTACT_FIELDS_MAP))) # ls)) \<and>
               length ls = errs \<and> errs \<noteq> 0)) \<and>
      (\<exists>ls. fs' op =
              Some (Csv (map PStr (map fst ACCOUNT_FIELDS_MAP @
                                   remove1 COMPANY_ID_COLUMN (map fst CONTACT_FIELDS_MAP)) # ls))))
   \<and> (build_opportunities engine fs cp op ep = (fs', Inr (tot, errs)) \<and> op \<noteq> ep \<and>
    fs cp = Some (Parquet rows) \<longrightarrow>
      (fs' ep \<noteq> None \<longleftrightarrow>
         (\<exists>row \<in> set rows. \<exists>out msg. join_deal engine row = Inr (out, Some msg) \<and> msg \<noteq> [])) \<and>
      (fs' ep \<noteq> None \<longrightarrow>
         (\<exists>ls. fs' ep =
                 Some (Csv (map PStr (ERROR_COLUMN # (remove1 COMPANY_ID_COLUMN (map fst DEAL_FIELDS_MAP) @
                                        [OPPORTUNITIES_ACCOUNT_NAME_COLUMN])) # ls)) \<and>
               length ls = errs \<and> errs \<noteq> 0)) \<and>
      (\<exists>ls. fs' op =
              Some (Csv (map PStr (remove1 COMPANY_ID_COLUMN (map fst DEAL_FIELDS_MAP) @
                                   [OPPORTUNITIES_ACCOUNT_NAME_COLUMN]) # ls))))"
proof (intro conjI impI)
  assume h: "build_accounts_contacts engine fs cp op ep = (fs', Inr (tot, errs)) \<and> op \<noteq> ep \<and>
    fs cp = Some (Parquet rows)"
  let ?fn = "map fst ACCOUNT_FIELDS_MAP @ remove1 COMPANY_ID_COLUMN (map fst CONTACT_FIELDS_MAP)"
  from h have w: "write_csvs (join_contact engine) ?fn (ERROR_COLUMN # ?fn) rows fs op ep =
      (fs', Inr (tot, errs))"
    by (auto simp add: build_accounts_contacts_def read_parquet_def Let_def)
  from h have ne: "op \<noteq> ep" by simp
  note c = write_csvs_closed [OF w ne]
  from c show "fs' ep \<noteq> None \<longleftrightarrow>
         (\<exists>row \<in> set rows. \<exists>out msg. join_contact engine row = Inr (out, Some msg) \<and> msg \<noteq> [])"
    by blast
  from c show "\<exists>ls. fs' op = Some (Csv (map PStr ?fn # ls))" by blast
  {
    assume "fs' ep \<noteq> None"
    with c show "\<exists>ls. fs' ep = Some (Csv (map PStr (ERROR_COLUMN # ?fn) # ls)) \<and>
               length ls = errs \<and> errs \<noteq> 0"
      by blast
  }
next
  assume h: "build_opportunities engine fs cp op ep = (fs', Inr (tot, errs)) \<and> op \<noteq> ep \<and>
    fs cp = Some (Parquet rows)"
  let ?fn = "remove1 COMPANY_ID_COLUMN (map fst DEAL_FIELDS_MAP) @ [OPPORTUNITIES_ACCOUNT_NAME_COLUMN]"
  from h have w: "write_csvs (join_deal engine) ?fn (ERROR_COLUMN # ?fn) rows fs op ep =
      (fs', Inr (tot, errs))"
    by (auto simp add: build_opportunities_def read_parquet_def Let_def)
  from h have ne: "op \<noteq> ep" by simp
  note c = write_csvs_closed [OF w ne]
  from c show "fs' ep \<noteq> None \<longleftrightarrow>
         (\<exists>row \<in> set rows. \<exists>out msg. join_deal engine row = Inr (out, Some msg) \<and> msg \<noteq> [])"
    by blast
  from c show "\<exists>ls. fs' op = Some (Csv (map PStr ?fn # ls))" by blast
  {
    assume "fs' ep \<noteq> None"
    with c show "\<exists>ls. fs' ep = Some (Csv (map PStr (ERROR_COLUMN # ?fn) # ls)) \<and>
               length ls = errs \<and> errs \<noteq> 0"
      by blast
  }
qed


lemmas pass_eval =
  build_accounts_contacts_def build_opportunities_def read_parquet_def write_csvs_def
  filename_defs join_eval

theorem error_file_iff_diagnostic_witness:
  "snd (build_accounts_contacts
          [\<lparr>col_id = u ''c1'', col_attrs = [(u ''Account Name'', PStr (u ''Acme''))],
            col_name = Some (u ''Acme''), col_duplicate = False\<rparr>]
          [contacts_filename \<mapsto>
             Parquet [[(u ''company_id'', PStr (u ''c1'')),
                       (u ''Contact First Name'', PStr (u ''Ann'')),
                       (u ''Contact Last Name'', PStr (u ''Doe''))]]]
          contacts_filename csv_accounts_contacts_filename csv_errors_accounts_contacts_filename)
     = Inr (1, 0)
   \<and> fst (build_accounts_contacts
          [\<lparr>col_id = u ''c1'', col_attrs = [(u ''Account Name'', PStr (u ''Acme''))],
            col_name = Some (u ''Acme''), col_duplicate = False\<rparr>]
          [contacts_filename \<mapsto>
             Parquet [[(u ''company_id'', PStr (u ''c1'')),
                       (u ''Contact First Name'', PStr (u ''Ann'')),
                       (u ''Contact Last Name'', PStr (u ''Doe''))]]]
          contacts_filename csv_accounts_contacts_filename csv_errors_accounts_contacts_filename)
     csv_errors_accounts_contacts_filename = None
   \<and> fst (build_accounts_contacts
          [\<lparr>col_id = u ''c1'', col_attrs = [(u ''Account Name'', PStr (u ''Acme''))],
            col_name = Some (u ''Acme''), col_duplicate = False\<rparr>]
          [contacts_filename \<mapsto>
             Parquet [[(u ''company_id'', PStr (u ''c1'')),
                       (u ''Contact First Name'', PStr (u ''Ann'')),
                       (u ''Contact Last Name'', PStr (u ''Doe''))]]]
          contacts_filename csv_accounts_contacts_filename csv_errors_accounts_contacts_filename)
     csv_accounts_contacts_filename \<noteq> None
   \<and> snd (build_accounts_contacts
          [\<lparr>col_id = u ''c1'', col_attrs = [(u ''Account Name'', PStr (u ''Acme''))],
            col_name = Some (u ''Acme''), col_duplicate = False\<rparr>]
          [contacts_filename \<mapsto>
             Parquet [[(u ''company_id'', PStr (u ''c1'')),
                       (u ''Contact First Name'', PNone),
                       (u ''Contact Last Name'', PStr (u ''Doe''))]]]
          contacts_filename csv_accounts_contacts_filename csv_errors_accounts_contacts_filename)
     = Inr (1, 1)
   \<and> fst (build_accounts_contacts
          [\<lparr>col_id = u ''c1'', col_attrs = [(u ''Account Name'', PStr (u ''Acme''))],
            col_name = Some (u ''Acme''), col_duplicate = False\<rparr>]
          [contacts_filename \<mapsto>
             Parquet [[(u ''company_id'', PStr (u ''c1'')),
                       (u ''Contact First Name'', PNone),
                       (u ''Contact Last Name'', PStr (u ''Doe''))]]]
          contacts_filename csv_accounts_contacts_filename csv_errors_accounts_contacts_filename)
     csv_errors_accounts_contacts_filename \<noteq> None
   \<and> fst (build_accounts_contacts
          [\<lparr>col_id = u ''c1'', col_attrs = [(u ''Account Name'', PStr (u ''Acme''))],
            col_name = Some (u ''Acme''), col_duplicate = False\<rparr>]
          [contacts_filename \<mapsto>
             Parquet [[(u ''company_id'', PStr (u ''c1'')),
                       (u ''Contact First Name'', PNone),
                       (u ''Contact Last Name'', PStr (u ''Doe''))]]]
          contacts_filename csv_accounts_contacts_filename csv_errors_accounts_contacts_filename)
     csv_accounts_contacts_filename \<noteq> None
   \<and> snd (build_opportunities
          [\<lparr>col_id = u ''c1'', col_attrs = [(u ''Account Name'', PStr (u ''Acme''))],
            col_name = Some (u ''Acme''), col_duplicate = False\<rparr>]
          [deals_filename \<mapsto>
             Parquet [[(u ''company_id'', PStr (u ''c1'')),
                       (u ''Name'', PStr (u ''Renewal'')),
                       (u ''Stage'', PStr (u ''Prospecting'')),
                       (u ''Close Date'', PStr (u ''2025-12-20''))]]]
          deals_filename csv_opportunities_filename csv_errors_opportunities_filename)
     = Inr (1, 0)
   \<and> fst (build_opportunities
          [\<lparr>col_id = u ''c1'', col_attrs = [(u ''Account Name'', PStr (u ''Acme''))],
            col_name = Some (u ''Acme''), col_duplicate = False\<rparr>]
          [deals_filename \<mapsto>
             Parquet [[(u ''company_id'', PStr (u ''c1'')),
                       (u ''Name'', PStr (u ''Renewal'')),
                       (u ''Stage'', PStr (u ''Prospecting'')),
                       (u ''Close Date'', PStr (u ''2025-12-20''))]]]
          deals_filename csv_opportunities_filename csv_errors_opportunities_filename)
     csv_errors_opportunities_filename = None
   \<and> fst (build_opportunities
          [\<lparr>col_id = u ''c1'', col_attrs = [(u ''Account Name'', PStr (u ''Acme''))],
            col_name = Some (u ''Acme''), col_duplicate = False\<rparr>]
          [deals_filename \<mapsto>
             Parquet [[(u ''company_id'', PStr (u ''c1'')),
                       (u ''Name'', PStr (u ''Renewal'')),
                       (u ''Stage'', PStr (u ''Prospecting'')),
                       (u ''Close Date'', PStr (u ''2025-12-20''))]]]
          deals_filename csv_opportunities_filename csv_errors_opportunities_filename)
     csv_opportunities_filename \<noteq> None
   \<and> snd (build_opportunities
          [\<lparr>col_id = u ''c1'', col_attrs = [(u ''Account Name'', PStr (u ''Acme''))],
            col_name = Some (u ''Acme''), col_duplicate = False\<rparr>]
          [deals_filename \<mapsto>
             Parquet [[(u ''company_id'', PStr (u ''c1'')),
                       (u ''Name'', PNone),
                       (u ''Stage'', PStr (u ''Prospecting'')),
                       (u ''Close Date'', PStr (u ''2025-12-20''))]]]
          deals_filename csv_opportunities_filename csv_errors_opportunities_filename)
     = Inr (1, 1)
   \<and> fst (build_opportunities
          [\<lparr>col_id = u ''c1'', col_attrs = [(u ''Account Name'', PStr (u ''Acme''))],
            col_name = Some (u ''Acme''), col_duplicate = False\<rparr>]
          [deals_filename \<mapsto>
             Parquet [[(u ''company_id'', PStr (u ''c1'')),
                       (u ''Name'', PNone),
                       (u ''Stage'', PStr (u ''Prospecting'')),
                       (u ''Close Date'', PStr (u ''2025-12-20''))]]]
          deals_filename csv_opportunities_filename csv_errors_opportunities_filename)
     csv_errors_opportunities_filename \<noteq> None
   \<and> fst (build_opportunities
          [\<lparr>col_id = u ''c1'', col_attrs = [(u ''Account Name'', PStr (u ''Acme''))],
            col_name = Some (u ''Acme''), col_duplicate = False\<rparr>]
          [deals_filename \<mapsto>
             Parquet [[(u ''company_id'', PStr (u ''c1'')),
                       (u ''Name'', PNone),
                       (u ''Stage'', PStr (u ''Prospecting'')),
                       (u ''Close Date'', PStr (u ''2025-12-20''))]]]
          deals_filename csv_opportunities_filename csv_errors_opportunities_filename)
     csv_opportunities_filename \<noteq> None"
proof -
  let ?engine = "[\<lparr>col_id = u ''c1'', col_attrs = [(u ''Account Name'', PStr (u ''Acme''))],
            col_name = Some (u ''Acme''), col_duplicate = False\<rparr>]"
  let ?good = "[(u ''company_id'', PStr (u ''c1'')),
                       (u ''Contact First Name'', PStr (u ''Ann'')),
                       (u ''Contact Last Name'', PStr (u ''Doe''))]"
  let ?bad = "[(u ''company_id'', PStr (u ''c1'')),
                       (u ''Contact First Name'', PNone),
                       (u ''Contact Last Name'', PStr (u ''Doe''))]"
  let ?run = "\<lambda>row. build_accounts_contacts ?engine [contacts_filename \<mapsto> Parquet [row]]
          contacts_filename csv_accounts_contacts_filename csv_errors_accounts_contacts_filename"
  have ne: "csv_accounts_contacts_filename \<noteq> csv_errors_accounts_contacts_filename"
    by (simp add: filename_defs)
  have g: "snd (?run ?good) = Inr (1, 0)"
    by (simp add: pass_eval)
  have jg: "join_contact ?engine ?good =
      Inr ([(u ''Account Name'', PStr (u ''Acme'')), (u ''Contact First Name'', PStr (u ''Ann'')),
            (u ''Contact Last Name'', PStr (u ''Doe''))], None)"
    by (simp add: join_eval)
  from g have "?run ?good = (fst (?run ?good), Inr (1, 0))"
    by (metis prod.collapse)
  from error_file_iff_diagnostic [THEN conjunct1, rule_format, OF conjI [OF this conjI [OF ne]],
      of "[?good]"] jg
  have 1: "fst (?run ?good) csv_errors_accounts_contacts_filename = None"
    "fst (?run ?good) csv_accounts_contacts_filename \<noteq> None"
    by auto
  have b: "snd (?run ?bad) = Inr (1, 1)"
    by (simp add: pass_eval)
  have jb: "join_contact ?engine ?bad =
      Inr ([(u ''Account Name'', PStr (u ''Acme'')), (u ''Contact First Name'', PStr []),
            (u ''Contact Last Name'', PStr (u ''Doe''))],
           Some (u ''Missing value /crm/objects/v3/contacts firstname (Contact First Name)''))"
    by (simp add: join_eval)
  from b have "?run ?bad = (fst (?run ?bad), Inr (1, 1))"
    by (metis prod.collapse)
  from error_file_iff_diagnostic [THEN conjunct1, rule_format, OF conjI [OF this conjI [OF ne]],
      of "[?bad]"] jb
  have 2: "fst (?run ?bad) csv_errors_accounts_contacts_filename \<noteq> None"
    "fst (?run ?bad) csv_accounts_contacts_filename \<noteq> None"
    by auto
  let ?gdeal = "[(u ''company_id'', PStr (u ''c1'')),
                       (u ''Name'', PStr (u ''Renewal'')),
                       (u ''Stage'', PStr (u ''Prospecting'')),
                       (u ''Close Date'', PStr (u ''2025-12-20''))]"
  let ?bdeal = "[(u ''company_id'', PStr (u ''c1'')),
                       (u ''Name'', PNone),
                       (u ''Stage'', PStr (u ''Prospecting'')),
                       (u ''Close Date'', PStr (u ''2025-12-20''))]"
  let ?drun = "\<lambda>row. build_opportunities ?engine [deals_filename \<mapsto> Parquet [row]]
          deals_filename csv_opportunities_filename csv_errors_opportunities_filename"
  have dne: "csv_opportunities_filename \<noteq> csv_errors_opportunities_filename"
    by (simp add: filename_defs)
  have dg: "snd (?drun ?gdeal) = Inr (1, 0)"
    by (simp add: pass_eval)
  have djg: "join_deal ?engine ?gdeal =
      Inr ([(u ''Name'', PStr (u ''Renewal'')), (u ''Stage'', PStr (u ''Prospecting'')),
            (u ''Close Date'', PStr (u ''2025-12-20'')), (u ''Next Step'', PStr (u ''Acme''))],
           None)"
    by (simp add: join_eval)
  from dg have "?drun ?gdeal = (fst (?drun ?gdeal), Inr (1, 0))"
    by (metis prod.collapse)
  from error_file_iff_diagnostic [THEN conjunct2, rule_format, OF conjI [OF this conjI [OF dne]],
      of "[?gdeal]"] djg
  have 3: "fst (?drun ?gdeal) csv_errors_opportunities_filename = None"
    "fst (?drun ?gdeal) csv_opportunities_filename \<noteq> None"
    by auto
  have db: "snd (?drun ?bdeal) = Inr (1, 1)"
    by (simp add: pass_eval)
  have djb: "join_deal ?engine ?bdeal =
      Inr ([(u ''Name'', PStr []), (u ''Stage'', PStr (u ''Prospecting'')),
            (u ''Close Date'', PStr (u ''2025-12-20'')), (u ''Next Step'', PStr (u ''Acme''))],
           Some (u ''Missing value /crm/objects/v3/deals dealname (Name)''))"
    by (simp add: join_eval)
  from db have "?drun ?bdeal = (fst (?drun ?bdeal), Inr (1, 1))"
    by (metis prod.collapse)
  from error_file_iff_diagnostic [THEN conjunct2, rule_format, OF conjI [OF this conjI [OF dne]],
      of "[?bdeal]"] djb
  have 4: "fst (?drun ?bdeal) csv_errors_opportunities_filename \<noteq> None"
    "fst (?drun ?bdeal) csv_opportunities_filename \<noteq> None"
    by auto
  from g 1 b 2 dg 3 db 4 show ?thesis by (intro conjI)
qed

section \<open>Properties of the batch insert\<close>

lemma build_attrs_account_name:
  assumes "build_attrs e ACCOUNT_FIELDS_MAP props = Inr attrs"
  shows "\<exists>p. props = PDict p \<and> attrs \<noteq> [] \<and>
           map_of attrs ACCOUNTS_NAME_COLUMN = Some (dict_get p (u ''name''))"
proof (cases props)
  case (PDict p)
  with assms show ?thesis
    by (auto simp add: build_attrs_account ACCOUNTS_NAME_COLUMN_def
        split: pyval.splits sum.splits prod.splits)
qed (use assms build_attrs_not_dict [of props ACCOUNT_FIELDS_MAP e] in
      \<open>auto simp add: ACCOUNT_FIELDS_MAP_def\<close>)

lemma company_entries_names:
  assumes "company_entries e results = Inr entries"
  shows "map (\<lambda>(cid, attrs, name). name) entries = map company_name results \<and>
         map (\<lambda>(cid, attrs, name). dict_get attrs (map fst ACCOUNT_FIELDS_MAP ! 0)) entries =
           map company_name results"
  using assms
proof (induction results arbitrary: entries)
  case Nil
  then show ?case by simp
next
  case (Cons res results)
  from Cons.prems obtain d where res: "res = PDict d"
    by (cases res) (auto simp add: py_get_def)
  from Cons.prems res obtain attrs where
    b: "build_attrs e ACCOUNT_FIELDS_MAP (dict_get d (u ''properties'')) = Inr attrs"
    by (auto simp add: py_get_def split: sum.splits)
  from build_attrs_account_name [OF b] obtain p where
    p: "dict_get d (u ''properties'') = PDict p"
       "map_of attrs ACCOUNTS_NAME_COLUMN = Some (dict_get p (u ''name''))"
    by blast
  from Cons.prems res b p obtain rest where
    rest: "company_entries e results = Inr rest"
    and entries: "entries = (dict_get d (u ''id''), attrs, dict_get p (u ''name'')) # rest"
    by (auto simp add: py_get_def dict_getitem_def split: sum.splits)
  have c0: "map fst ACCOUNT_FIELDS_MAP ! 0 = ACCOUNTS_NAME_COLUMN"
    by (simp add: ACCOUNT_FIELDS_MAP_def)
  have n: "company_name res = dict_get p (u ''name'')"
    using res p(1) by (simp add: company_name_def)
  from Cons.IH [OF rest] entries n p(2) c0 show ?case
    by (simp add: dict_get_def)
qed

lemma mark_duplicates_length [simp]:
  "length (mark_duplicates m entries added) = length entries"
  by (induction entries arbitrary: added) (auto simp add: Let_def)

lemma mark_duplicates_nth:
  "i < length entries \<Longrightarrow>
     mark_duplicates m entries added ! i =
       (case entries ! i of
          (cid, attrs, name) \<Rightarrow>
            (cid, attrs, name,
             (case map_of m name of None \<Rightarrow> False | Some b \<Rightarrow> b) \<or> name \<in> set added \<or>
             name \<in> set (take i (map (\<lambda>(cid, attrs, name). name) entries))))"
proof (induction entries arbitrary: i added)
  case Nil
  then show ?case by simp
next
  case (Cons x entries)
  obtain cid attrs name where x: "x = (cid, attrs, name)" by (cases x)
  show ?case
  proof (cases i)
    case 0
    with x show ?thesis by (simp add: Let_def)
  next
    case (Suc k)
    with Cons.prems have k: "k < length entries" by simp
    from Cons.IH [OF k, of "name # added"] x Suc show ?thesis
      by (auto simp add: Let_def split: prod.splits)
  qed
qed

lemma insert_rows_appends:
  assumes "insert_rows tbl entries = Inr tbl'"
  shows "\<exists>rows. tbl' = tbl @ rows \<and>
           list_all2 (\<lambda>r (cid, attrs, name, dup).
              sql_text name = Inr (col_name r) \<and> col_duplicate r = dup) rows entries"
  using assms
proof (induction entries arbitrary: tbl)
  case Nil
  then show ?case by simp
next
  case (Cons x entries)
  obtain cid attrs name dup where x: "x = (cid, attrs, name, dup)" by (cases x)
  from Cons.prems x obtain i n where
    n: "sql_text name = Inr n"
    and rest: "insert_rows (tbl @ [\<lparr>col_id = i, col_attrs = attrs, col_name = n,
                                   col_duplicate = dup\<rparr>]) entries = Inr tbl'"
    by (auto split: sum.splits option.splits if_splits)
  from Cons.IH [OF rest] obtain rows where
    rows: "tbl' = (tbl @ [\<lparr>col_id = i, col_attrs = attrs, col_name = n,
                          col_duplicate = dup\<rparr>]) @ rows"
      "list_all2 (\<lambda>r (cid, attrs, name, dup).
              sql_text name = Inr (col_name r) \<and> col_duplicate r = dup) rows entries"
    by blast
  have "tbl' = tbl @ (\<lparr>col_id = i, col_attrs = attrs, col_name = n, col_duplicate = dup\<rparr> # rows)"
    using rows(1) by simp
  moreover have "list_all2 (\<lambda>r (cid, attrs, name, dup).
              sql_text name = Inr (col_name r) \<and> col_duplicate r = dup)
            (\<lparr>col_id = i, col_attrs = attrs, col_name = n, col_duplicate = dup\<rparr> # rows)
            (x # entries)"
    using rows(2) n x by simp
  ultimately show ?case by blast
qed

lemma add_companies_Inr:
  "add_companies tbl entries = Inr tbl' \<Longrightarrow> insert_rows tbl entries = Inr tbl'"
  by (auto simp add: add_companies_def split: if_splits option.splits)

lemma map_of_zip_strings:
  "map_of (zip (map PStr us) (map g us)) (PStr s) = (if s \<in> set us then Some (g s) else None)"
  by (induction us) auto

lemma seen_before_iff:
  fixes tbl :: companies
  assumes "\<forall>r \<in> set tbl. col_id r \<noteq> []" and "s \<in> set us"
  shows "py_truthy (opt_str (map_of (rev (select_by_name tbl (map Some us))) s)) \<longleftrightarrow>
           (\<exists>r \<in> set tbl. col_name r = Some s \<and> \<not> col_duplicate r)"
proof (cases "map_of (rev (select_by_name tbl (map Some us))) s")
  case None
  then have "s \<notin> fst ` set (select_by_name tbl (map Some us))"
    by (simp add: map_of_eq_None_iff)
  with assms(2) have "\<not> (\<exists>r \<in> set tbl. col_name r = Some s \<and> \<not> col_duplicate r)"
    unfolding select_by_name_fst by auto
  with None show ?thesis by (simp add: opt_str_def)
next
  case (Some i)
  then have "(s, i) \<in> set (select_by_name tbl (map Some us))"
    using map_of_SomeD [of "rev (select_by_name tbl (map Some us))" s i] by simp
  then obtain r where r: "r \<in> set tbl" "col_name r = Some s" "col_id r = i" "\<not> col_duplicate r"
    unfolding select_by_name_mem by blast
  with assms(1) have "i \<noteq> []" by auto
  with Some r show ?thesis by (auto simp add: opt_str_def)
qed


lemma remdups_strings: "remdups (map PStr ss) = map PStr (remdups ss)"
  by (induction ss) auto

lemma in_take_iff: "x \<in> set (take i xs) \<longleftrightarrow> (\<exists>j < i. j < length xs \<and> xs ! j = x)"
  by (auto simp add: in_set_conv_nth)

lemma persist_company_flags:
  assumes res: "results_of json = Inr results"
    and str: "\<forall>res \<in> set results. \<exists>s. company_name res = PStr s"
    and ids: "\<forall>r \<in> set engine. col_id r \<noteq> []"
    and ok: "persist_company e engine json = Inr engine'"
  shows "\<exists>new. engine' = engine @ new \<and> length new = length results \<and>
           (\<forall>i < length results.
              company_name (results ! i) = opt_str (col_name (new ! i)) \<and>
              (col_duplicate (new ! i) \<longleftrightarrow>
                 (\<exists>r \<in> set engine. col_name r = col_name (new ! i) \<and> \<not> col_duplicate r) \<or>
                 (\<exists>j < i. company_name (results ! j) = company_name (results ! i))))"
proof -
  from ok res obtain entries where ent: "company_entries e results = Inr entries"
    by (auto simp add: persist_company_def Let_def split: sum.splits)
  note nm = company_entries_names [OF ent]
  define ss where "ss = map (\<lambda>res. case company_name res of PStr s \<Rightarrow> s | _ \<Rightarrow> []) results"
  have names: "map company_name results = map PStr ss"
    using str by (auto simp add: ss_def)
  have lss: "length ss = length results" by (simp add: ss_def)
  have nth_name: "company_name (results ! i) = PStr (ss ! i)" if "i < length results" for i
    using names that lss by (metis nth_map)
  have lent: "length entries = length results"
    using nm by (metis length_map)
  have uniq: "uniq_names_of (map PStr ss) = Inr (map PStr (remdups ss))"
    by (simp add: uniq_names_of_def remdups_strings list_all_iff)
  from ok res ent nm uniq names have ok2:
    "(case find_companies_by_name engine (Some (map PStr (remdups ss))) of
        Inl err \<Rightarrow> Inl err
      | Inr found \<Rightarrow>
          add_companies engine
            (mark_duplicates (zip (map PStr (remdups ss)) (map py_truthy found)) entries []))
     = Inr engine'"
    by (simp add: persist_company_def Let_def)
  have ne: "ss \<noteq> []"
  proof
    assume "ss = []"
    with ok2 show False by (simp add: find_companies_by_name_def)
  qed
  define lookup where
    "lookup = (\<lambda>s. opt_str (map_of (rev (select_by_name engine (map Some (remdups ss)))) s))"
  define m where
    "m = zip (map PStr (remdups ss)) (map (\<lambda>s. py_truthy (lookup s)) (remdups ss))"
  have "find_companies_by_name engine (Some (map PStr (remdups ss))) =
          Inr (map lookup (remdups ss))"
    using find_companies_by_name_strings [of "remdups ss" engine] ne
    by (simp add: lookup_def)
  with ok2 have ok3: "add_companies engine (mark_duplicates m entries []) = Inr engine'"
    by (simp add: m_def o_def)
  from insert_rows_appends [OF add_companies_Inr [OF ok3]] obtain new where
    new: "engine' = engine @ new"
    and rel: "list_all2 (\<lambda>r (cid, attrs, name, dup).
                sql_text name = Inr (col_name r) \<and> col_duplicate r = dup)
              new (mark_duplicates m entries [])"
    by blast
  have len: "length new = length results"
    using list_all2_lengthD [OF rel] lent by simp
  have flags:
    "company_name (results ! i) = opt_str (col_name (new ! i)) \<and>
     (col_duplicate (new ! i) \<longleftrightarrow>
        (\<exists>r \<in> set engine. col_name r = col_name (new ! i) \<and> \<not> col_duplicate r) \<or>
        (\<exists>j < i. company_name (results ! j) = company_name (results ! i)))"
    if i: "i < length results" for i
  proof -
    have "(map (\<lambda>(cid, attrs, name). name) entries) ! i = PStr (ss ! i)"
      using nm names i lss by simp
    then obtain cid attrs where ei: "entries ! i = (cid, attrs, PStr (ss ! i))"
      using i lent by (cases "entries ! i") simp
    have mem: "ss ! i \<in> set (remdups ss)" using i lss by simp
    have db: "map_of m (PStr (ss ! i)) = Some (py_truthy (lookup (ss ! i)))"
      using mem by (simp add: m_def map_of_zip_strings)
    have seen: "py_truthy (lookup (ss ! i)) \<longleftrightarrow>
        (\<exists>r \<in> set engine. col_name r = Some (ss ! i) \<and> \<not> col_duplicate r)"
      unfolding lookup_def by (rule seen_before_iff [OF ids mem])
    have batch: "PStr (ss ! i) \<in> set (take i (map (\<lambda>(cid, attrs, name). name) entries)) \<longleftrightarrow>
        (\<exists>j < i. company_name (results ! j) = company_name (results ! i))"
    proof -
      have "PStr (ss ! i) \<in> set (take i (map PStr ss)) \<longleftrightarrow> (\<exists>j < i. PStr (ss ! j) = PStr (ss ! i))"
        using i lss by (auto simp add: in_take_iff)
      also have "\<dots> \<longleftrightarrow> (\<exists>j < i. company_name (results ! j) = company_name (results ! i))"
        using i nth_name by (metis (no_types, lifting) less_trans)
      finally show ?thesis using nm names by simp
    qed
    have mi: "mark_duplicates m entries [] ! i =
        (cid, attrs, PStr (ss ! i),
         py_truthy (lookup (ss ! i)) \<or>
         PStr (ss ! i) \<in> set (take i (map (\<lambda>(cid, attrs, name). name) entries)))"
      using mark_duplicates_nth [of i entries m "[]"] i lent ei db by simp
    from list_all2_nthD [OF rel, of i] i len mi have
      r: "col_name (new ! i) = Some (ss ! i)"
         "col_duplicate (new ! i) \<longleftrightarrow>
            py_truthy (lookup (ss ! i)) \<or>
            PStr (ss ! i) \<in> set (take i (map (\<lambda>(cid, attrs, name). name) entries))"
      by (simp_all add: sql_text_def)
    from r seen batch nth_name [OF i] show ?thesis
      by (simp add: opt_str_def)
  qed
  from new len flags show ?thesis by blast
qed


lemma results_of_list [simp]:
  "results_of (PDict [(u ''results'', PList (x # xs))]) = Inr (x # xs)"
  by (simp add: results_of_def py_get_def dict_get_def)

lemma u_append: "u a @ u b = u (a @ b)"
  by (simp add: u_def)

lemma name_column: "map fst ACCOUNT_FIELDS_MAP ! 0 = u ''Account Name''"
  by (simp add: ACCOUNT_FIELDS_MAP_def ACCOUNTS_NAME_COLUMN_def)

lemmas persist_eval =
  persist_company_def results_of_def py_get_def dict_get_def dict_getitem_def
  build_attrs_account parse_address_def opt_str_def uniq_names_of_def name_column
  ACCOUNTS_NAME_COLUMN_def find_companies_by_name_def select_by_name_def
  List.map_filter_simps add_companies_def sql_text_def Let_def

text \<open>
  The batches on which the flag is the one asked for. Let the names of the batch be
  strings and let no row of the store have the empty id. When \<open>_persist_company\<close> returns,
  the store holds its old rows followed by one row for each record of the batch, in the
  order of the batch, and the row's \<open>duplicate\<close> is true exactly when a row of the old
  store has the same name and \<open>duplicate\<close> false, or an earlier record of the batch has
  the same name. In particular, of three records named \<open>n\<close>, \<open>n\<close> and \<open>m\<close> that are
  written to an empty store the second is the only duplicate.
\<close>

lemma duplicate_flag_named:
  "(results_of json = Inr results \<and> (\<forall>res \<in> set results. \<exists>s. company_name res = PStr s) \<and>
    (\<forall>r \<in> set engine. col_id r \<noteq> []) \<and> persist_company e engine json = Inr engine' \<longrightarrow>
      (\<exists>new. engine' = engine @ new \<and> length new = length results \<and>
         (\<forall>i < length results.
            company_name (results ! i) = opt_str (col_name (new ! i)) \<and>
            (col_duplicate (new ! i) \<longleftrightarrow>
               (\<exists>r \<in> set engine. col_name r = col_name (new ! i) \<and> \<not> col_duplicate r) \<or>
               (\<exists>j < i. company_name (results ! j) = company_name (results ! i))))))
   \<and> (company_name a = PStr n \<and> company_name b = PStr n \<and> company_name c = PStr m \<and> n \<noteq> m \<and>
      persist_company e [] (PDict [(u ''results'', PList [a, b, c])]) = Inr stored \<longrightarrow>
        map col_duplicate stored = [False, True, False])"
proof (intro conjI impI)
  assume "results_of json = Inr results \<and> (\<forall>res \<in> set results. \<exists>s. company_name res = PStr s) \<and>
    (\<forall>r \<in> set engine. col_id r \<noteq> []) \<and> persist_company e engine json = Inr engine'"
  then show "\<exists>new. engine' = engine @ new \<and> length new = length results \<and>
         (\<forall>i < length results.
            company_name (results ! i) = opt_str (col_name (new ! i)) \<and>
            (col_duplicate (new ! i) \<longleftrightarrow>
               (\<exists>r \<in> set engine. col_name r = col_name (new ! i) \<and> \<not> col_duplicate r) \<or>
               (\<exists>j < i. company_name (results ! j) = company_name (results ! i))))"
    using persist_company_flags [of json results engine e engine'] by blast
next
  assume a: "company_name a = PStr n \<and> company_name b = PStr n \<and> company_name c = PStr m \<and>
    n \<noteq> m \<and> persist_company e [] (PDict [(u ''results'', PList [a, b, c])]) = Inr stored"
  have "results_of (PDict [(u ''results'', PList [a, b, c])]) = Inr [a, b, c]"
    by simp
  moreover have "\<forall>res \<in> set [a, b, c]. \<exists>s. company_name res = PStr s"
    using a by simp
  moreover have "\<forall>r \<in> set ([] :: companies). col_id r \<noteq> []"
    by simp
  ultimately obtain new where new: "stored = [] @ new" "length new = length [a, b, c]"
    and flags: "\<forall>i < length [a, b, c].
       (col_duplicate (new ! i) \<longleftrightarrow>
          (\<exists>r \<in> set ([] :: companies). col_name r = col_name (new ! i) \<and> \<not> col_duplicate r) \<or>
          (\<exists>j < i. company_name ([a, b, c] ! j) = company_name ([a, b, c] ! i)))"
    using persist_company_flags [of _ "[a, b, c]" "[]" e stored] a by blast
  from new(2) obtain x y z where xyz: "new = [x, y, z]"
    by (auto simp add: numeral_3_eq_3 length_Suc_conv)
  from flags [rule_format, of 0] have "\<not> col_duplicate x" using xyz by simp
  moreover from flags [rule_format, of 1] have "col_duplicate y" using xyz a by simp
  moreover from flags [rule_format, of 2] have "\<not> col_duplicate z"
    using xyz a by (auto simp add: numeral_2_eq_2 less_Suc_eq)
  ultimately show "map col_duplicate stored = [False, True, False]"
    using new(1) xyz by simp
qed

text \<open>The example of the specification, and a batch that meets a company of the store.\<close>

lemma duplicate_flag_named_example:
  "(\<exists>stored.
      persist_company
        \<lparr>uni_alpha = (\<lambda>c. False),
          now = \<lparr>year = 2025, month = 12, day = 20, hour = 9, minute = 30, second = 15,
                 microsecond = 0\<rparr>\<rparr>
        []
        (PDict [(u ''results'', PList
           [PDict [(u ''id'', PStr (u ''1'')),
                   (u ''properties'', PDict [(u ''name'', PStr (u ''Acme'')),
                                             (u ''domain'', PStr (u ''acme.io''))])],
            PDict [(u ''id'', PStr (u ''2'')),
                   (u ''properties'', PDict [(u ''name'', PStr (u ''Acme'')),
                                             (u ''domain'', PStr (u ''acme.com''))])],
            PDict [(u ''id'', PStr (u ''3'')),
                   (u ''properties'', PDict [(u ''name'', PStr (u ''Globex'')),
                                             (u ''domain'', PStr (u ''globex.com''))])]])])
      = Inr stored \<and>
      map col_id stored = [u ''1'', u ''2'', u ''3''] \<and>
      map col_duplicate stored = [False, True, False])
   \<and> (\<exists>new.
      persist_company
        \<lparr>uni_alpha = (\<lambda>c. False),
          now = \<lparr>year = 2025, month = 12, day = 20, hour = 9, minute = 30, second = 15,
                 microsecond = 0\<rparr>\<rparr>
        [\<lparr>col_id = u ''1'', col_attrs = [(u ''Account Name'', PStr (u ''Acme''))],
          col_name = Some (u ''Acme''), col_duplicate = False\<rparr>]
        (PDict [(u ''results'', PList
           [PDict [(u ''id'', PStr (u ''2'')),
                   (u ''properties'', PDict [(u ''name'', PStr (u ''Acme'')),
                                             (u ''domain'', PStr (u ''acme.com''))])],
            PDict [(u ''id'', PStr (u ''3'')),
                   (u ''properties'', PDict [(u ''name'', PStr (u ''Globex'')),
                                             (u ''domain'', PStr (u ''globex.com''))])]])])
      = Inr (\<lparr>col_id = u ''1'', col_attrs = [(u ''Account Name'', PStr (u ''Acme''))],
              col_name = Some (u ''Acme''), col_duplicate = False\<rparr> # new) \<and>
      map col_duplicate new = [True, False])"
proof -
  let ?e = "\<lparr>uni_alpha = (\<lambda>c. False),
          now = \<lparr>year = 2025, month = 12, day = 20, hour = 9, minute = 30, second = 15,
                 microsecond = 0\<rparr>\<rparr>"
  let ?a = "PDict [(u ''id'', PStr (u ''1'')),
                   (u ''properties'', PDict [(u ''name'', PStr (u ''Acme'')),
                                             (u ''domain'', PStr (u ''acme.io''))])]"
  let ?b = "PDict [(u ''id'', PStr (u ''2'')),
                   (u ''properties'', PDict [(u ''name'', PStr (u ''Acme'')),
                                             (u ''domain'', PStr (u ''acme.com''))])]"
  let ?c = "PDict [(u ''id'', PStr (u ''3'')),
                   (u ''properties'', PDict [(u ''name'', PStr (u ''Globex'')),
                                             (u ''domain'', PStr (u ''globex.com''))])]"
  obtain stored where p:
    "persist_company ?e [] (PDict [(u ''results'', PList [?a, ?b, ?c])]) = Inr stored"
    and i: "map col_id stored = [u ''1'', u ''2'', u ''3'']"
    by (simp add: persist_eval)
  have n: "company_name ?a = PStr (u ''Acme'')" "company_name ?b = PStr (u ''Acme'')"
    "company_name ?c = PStr (u ''Globex'')" "u ''Acme'' \<noteq> u ''Globex''"
    by (simp_all add: company_name_def dict_get_def)
  from duplicate_flag_named [THEN conjunct2, rule_format,
      of ?a "u ''Acme''" ?b ?c "u ''Globex''" ?e stored] n p
  have d: "map col_duplicate stored = [False, True, False]"
    by blast
  have first: "\<exists>stored.
      persist_company ?e [] (PDict [(u ''results'', PList [?a, ?b, ?c])]) = Inr stored \<and>
      map col_id stored = [u ''1'', u ''2'', u ''3''] \<and>
      map col_duplicate stored = [False, True, False]"
    by (rule exI [of _ stored]) (intro conjI p i d)
  let ?row = "\<lparr>col_id = u ''1'', col_attrs = [(u ''Account Name'', PStr (u ''Acme''))],
          col_name = Some (u ''Acme''), col_duplicate = False\<rparr>"
  obtain stored2 where p2:
    "persist_company ?e [?row] (PDict [(u ''results'', PList [?b, ?c])]) = Inr stored2"
    by (simp add: persist_eval)
  have h: "results_of (PDict [(u ''results'', PList [?b, ?c])]) = Inr [?b, ?c] \<and>
      (\<forall>res \<in> set [?b, ?c]. \<exists>s. company_name res = PStr s) \<and>
      (\<forall>r \<in> set [?row]. col_id r \<noteq> [])"
    using n by simp
  from duplicate_flag_named [THEN conjunct1, rule_format,
      of "PDict [(u ''results'', PList [?b, ?c])]" "[?b, ?c]" "[?row]" ?e stored2] h p2
  obtain new where new: "stored2 = [?row] @ new" "length new = length [?b, ?c]"
    and flags: "\<forall>i < length [?b, ?c].
            company_name ([?b, ?c] ! i) = opt_str (col_name (new ! i)) \<and>
            (col_duplicate (new ! i) \<longleftrightarrow>
               (\<exists>r \<in> set [?row]. col_name r = col_name (new ! i) \<and> \<not> col_duplicate r) \<or>
               (\<exists>j < i. company_name ([?b, ?c] ! j) = company_name ([?b, ?c] ! i)))"
    by blast
  from new(2) obtain x y where xy: "new = [x, y]"
    by (auto simp add: numeral_2_eq_2 length_Suc_conv)
  from flags [rule_format, of 0] n xy have x: "col_duplicate x"
    by (auto simp add: opt_str_def split: option.splits)
  from flags [rule_format, of 1] n xy have y: "\<not> col_duplicate y"
    by (auto simp add: opt_str_def split: option.splits)
  have second: "\<exists>new.
      persist_company ?e [?row] (PDict [(u ''results'', PList [?b, ?c])]) = Inr (?row # new) \<and>
      map col_duplicate new = [True, False]"
    using p2 new(1) xy x y by (intro exI [of _ new]) simp
  from first second show ?thesis by (rule conjI)
qed

text \<open>
  Claim C1. A record's \<open>duplicate\<close> is to be true exactly when the store holds a company
  of the same name whose \<open>duplicate\<close> is false, or an earlier record of the batch has the
  same name. \<open>_persist_company\<close> does not do this for companies without a name. A first
  batch stores company \<open>1\<close>, which has no name, with \<open>duplicate\<close> false. A second batch
  with company \<open>2\<close>, which has no name either, stores it with \<open>duplicate\<close> false as well:
  the store is asked with \<open>name IN (NULL)\<close>, which selects no row. The walk over the batch
  does what the claim says: when the same two companies come in one batch, \<open>added_names\<close>
  holds \<open>None\<close> at the second and it is flagged.
\<close>

theorem duplicate_flag_nameless:
  "persist_company
     \<lparr>uni_alpha = (\<lambda>c. False),
       now = \<lparr>year = 2025, month = 12, day = 20, hour = 9, minute = 30, second = 15,
              microsecond = 0\<rparr>\<rparr>
     []
     (PDict [(u ''results'', PList
        [PDict [(u ''id'', PStr (u ''1'')),
                (u ''properties'', PDict [(u ''name'', PNone),
                                          (u ''domain'', PStr (u ''acme.io''))])]])])
   = Inr [\<lparr>col_id = u ''1'',
            col_attrs = [(u ''Account Name'', PNone),
                         (u ''Account Website'', PStr (u ''https://acme.io'')),
                         (u ''Account Billing Street'', PNone),
                         (u ''Account Billing City'', PNone),
                         (u ''Account Billing Zip/Postal Code'', PNone),
                         (u ''Account Billing Country'', PNone)],
            col_name = None, col_duplicate = False\<rparr>]
   \<and> persist_company
     \<lparr>uni_alpha = (\<lambda>c. False),
       now = \<lparr>year = 2025, month = 12, day = 20, hour = 9, minute = 30, second = 15,
              microsecond = 0\<rparr>\<rparr>
     [\<lparr>col_id = u ''1'',
       col_attrs = [(u ''Account Name'', PNone),
                    (u ''Account Website'', PStr (u ''https://acme.io'')),
                    (u ''Account Billing Street'', PNone),
                    (u ''Account Billing City'', PNone),
                    (u ''Account Billing Zip/Postal Code'', PNone),
                    (u ''Account Billing Country'', PNone)],
       col_name = None, col_duplicate = False\<rparr>]
     (PDict [(u ''results'', PList
        [PDict [(u ''id'', PStr (u ''2'')),
                (u ''properties'', PDict [(u ''name'', PNone),
                                          (u ''domain'', PStr (u ''acme.com''))])]])])
   = Inr [\<lparr>col_id = u ''1'',
            col_attrs = [(u ''Account Name'', PNone),
                         (u ''Account Website'', PStr (u ''https://acme.io'')),
                         (u ''Account Billing Street'', PNone),
                         (u ''Account Billing City'', PNone),
                         (u ''Account Billing Zip/Postal Code'', PNone),
                         (u ''Account Billing Country'', PNone)],
            col_name = None, col_duplicate = False\<rparr>,
          \<lparr>col_id = u ''2'',
            col_attrs = [(u ''Account Name'', PNone),
                         (u ''Account Website'', PStr (u ''https://acme.com'')),
                         (u ''Account Billing Street'', PNone),
                         (u ''Account Billing City'', PNone),
                         (u ''Account Billing Zip/Postal Code'', PNone),
                         (u ''Account Billing Country'', PNone)],
            col_name = None, col_duplicate = False\<rparr>]
   \<and> persist_company
     \<lparr>uni_alpha = (\<lambda>c. False),
       now = \<lparr>year = 2025, month = 12, day = 20, hour = 9, minute = 30, second = 15,
              microsecond = 0\<rparr>\<rparr>
     []
     (PDict [(u ''results'', PList
        [PDict [(u ''id'', PStr (u ''1'')),
                (u ''properties'', PDict [(u ''name'', PNone),
                                          (u ''domain'', PStr (u ''acme.io''))])],
         PDict [(u ''id'', PStr (u ''2'')),
                (u ''properties'', PDict [(u ''name'', PNone),
                                          (u ''domain'', PStr (u ''acme.com''))])]])])
   = Inr [\<lparr>col_id = u ''1'',
            col_attrs = [(u ''Account Name'', PNone),
                         (u ''Account Website'', PStr (u ''https://acme.io'')),
                         (u ''Account Billing Street'', PNone),
                         (u ''Account Billing City'', PNone),
                         (u ''Account Billing Zip/Postal Code'', PNone),
                         (u ''Account Billing Country'', PNone)],
            col_name = None, col_duplicate = False\<rparr>,
          \<lparr>col_id = u ''2'',
            col_attrs = [(u ''Account Name'', PNone),
                         (u ''Account Website'', PStr (u ''https://acme.com'')),
                         (u ''Account Billing Street'', PNone),
                         (u ''Account Billing City'', PNone),
                         (u ''Account Billing Zip/Postal Code'', PNone),
                         (u ''Account Billing Country'', PNone)],
            col_name = None, col_duplicate = True\<rparr>]"
  by (simp add: persist_eval u_append)

text \<open>
  The lookup in the store is tested with \<open>bool(found)\<close>, where \<open>found\<close> is the id of the
  company found or \<open>None\<close>. A company of the store whose id is the empty string is
  therefore not seen: the record of the same name is stored with \<open>duplicate\<close> false.
\<close>

lemma duplicate_flag_empty_id:
  "persist_company
     \<lparr>uni_alpha = (\<lambda>c. False),
       now = \<lparr>year = 2025, month = 12, day = 20, hour = 9, minute = 30, second = 15,
              microsecond = 0\<rparr>\<rparr>
     [\<lparr>col_id = u '''', col_attrs = [(u ''Account Name'', PStr (u ''Acme''))],
       col_name = Some (u ''Acme''), col_duplicate = False\<rparr>]
     (PDict [(u ''results'', PList
        [PDict [(u ''id'', PStr (u ''2'')),
                (u ''properties'', PDict [(u ''name'', PStr (u ''Acme'')),
                                          (u ''domain'', PStr (u ''acme.com''))])]])])
   = Inr [\<lparr>col_id = u '''', col_attrs = [(u ''Account Name'', PStr (u ''Acme''))],
            col_name = Some (u ''Acme''), col_duplicate = False\<rparr>,
          \<lparr>col_id = u ''2'',
            col_attrs = [(u ''Account Name'', PStr (u ''Acme'')),
                         (u ''Account Website'', PStr (u ''https://acme.com'')),
                         (u ''Account Billing Street'', PNone),
                         (u ''Account Billing City'', PNone),
                         (u ''Account Billing Zip/Postal Code'', PNone),
                         (u ''Account Billing Country'', PNone)],
            col_name = Some (u ''Acme''), col_duplicate = False\<rparr>]"
  by (simp add: persist_eval u_append)

end
